theory Spec2Isabelle
  imports Main "HOL-Library.AList"
begin

section \<open>The custom-resource response helper (provider-framework/runtime/cfn-response.ts)\<close>

text \<open>
  The module delivers the outcome of a custom-resource request to CloudFormation
  (\<open>submitResponse\<close>), wraps a user handler so that failures are reported
  (\<open>safeHandler\<close>), and masks result data for logging (\<open>redactDataFromPayload\<close>).

  Everything the TypeScript does beyond returning a value is explicit here: the console
  and the network are a trace of actions inside a \<open>world\<close>, a thrown value is a result
  \<open>Threw e\<close>, and the event object, which the wrapper and the inner handler share by
  reference, is passed in and handed back in its final state.
\<close>

subsection \<open>Constants and JavaScript values\<close>

definition CREATE_FAILED_PHYSICAL_ID_MARKER :: string where
  "CREATE_FAILED_PHYSICAL_ID_MARKER = ''AWSCDK::CustomResourceProviderFramework::CREATE_FAILED''"

definition MISSING_PHYSICAL_ID_MARKER :: string where
  "MISSING_PHYSICAL_ID_MARKER = ''AWSCDK::CustomResourceProviderFramework::MISSING_PHYSICAL_ID''"

text \<open>
  Result data is an object: keys in property order, values of any kind (\<open>any\<close>). A value
  is a JSON value or \<open>JUndefined\<close>, which stands for \<open>undefined\<close> and for the other values
  that \<open>JSON.stringify\<close> leaves out (a function, a symbol). An optional property of an
  event or a response that is \<open>undefined\<close> (or \<open>null\<close>) is \<open>None\<close>.
\<close>

datatype jvalue =
    JUndefined
  | JNull
  | JBool bool
  | JNum int
  | JStr string
  | JArr "jvalue list"
  | JObj "(string \<times> jvalue) list"

type_synonym jobject = "(string \<times> jvalue) list"

text \<open>
  What \<open>JSON.parse(JSON.stringify(v))\<close> gives: a property whose value is left out is
  dropped from its object, an array element that is left out becomes \<open>null\<close>, and the
  values inside are treated alike.
\<close>

fun JSON_value :: "jvalue \<Rightarrow> jvalue" where
  "JSON_value (JArr xs) = JArr (map (\<lambda>x. if x = JUndefined then JNull else JSON_value x) xs)"
| "JSON_value (JObj kvs) =
     JObj (map (\<lambda>kv. (fst kv, JSON_value (snd kv))) (filter (\<lambda>kv. snd kv \<noteq> JUndefined) kvs))"
| "JSON_value v = v"

definition JSON_object :: "jobject \<Rightarrow> jobject" where
  "JSON_object d =
     map (\<lambda>kv. (fst kv, JSON_value (snd kv))) (filter (\<lambda>kv. snd kv \<noteq> JUndefined) d)"

text \<open>
  A string-valued property in a boolean position: \<open>undefined\<close> and the empty string are
  falsy, every other string is truthy. \<open>a || b\<close> yields \<open>a\<close> when it is truthy, else \<open>b\<close>.
\<close>

fun truthy :: "string option \<Rightarrow> bool" where
  "truthy None = False"
| "truthy (Some s) = (s \<noteq> [])"

definition or_else :: "string option \<Rightarrow> string \<Rightarrow> string" where
  "or_else a b = (if truthy a then the a else b)"

text \<open>What a template literal prints for a property that may be \<open>null\<close>.\<close>

fun tmpl :: "string option \<Rightarrow> string" where
  "tmpl None = ''null''"
| "tmpl (Some s) = s"

subsection \<open>Events, options, responses\<close>

record CloudFormationResponseOptions =
  reason :: "string option"
  noEcho :: "bool option"

text \<open>
  The event: \<open>CloudFormationEventContext\<close> together with the \<open>RequestType\<close> that
  \<open>safeHandler\<close> reads from it.
\<close>

record event =
  RequestType :: string
  StackId :: string
  RequestId :: string
  PhysicalResourceId :: "string option"
  LogicalResourceId :: string
  ResponseURL :: string
  Data :: "jobject option"

datatype status = SUCCESS | FAILED

fun status_str :: "status \<Rightarrow> string" where
  "status_str SUCCESS = ''SUCCESS''"
| "status_str FAILED = ''FAILED''"

text \<open>
  The response (\<open>CloudFormationCustomResourceResponse\<close>, \<open>OnEventResponse\<close>). Its data is
  of type \<open>'d\<close>: a JSON object when the response is taken as a value, an address when it
  is an object in the store (see the last subsection).
\<close>

record 'd response =
  resp_Status :: status
  resp_Reason :: string
  resp_StackId :: string
  resp_RequestId :: string
  resp_PhysicalResourceId :: string
  resp_LogicalResourceId :: string
  resp_NoEcho :: "bool option"
  resp_Data :: "'d option"

text \<open>The response that the JSON text of a response stands for.\<close>

definition JSON_response :: "jobject response \<Rightarrow> jobject response" where
  "JSON_response r = r\<lparr>resp_Data := map_option JSON_object (resp_Data r)\<rparr>"

subsection \<open>Thrown values, outcomes, the world\<close>

text \<open>
  Anything can be thrown: \<open>undefined\<close>, \<open>null\<close>, or another value. Of another value the
  module looks at whether it is an instance of \<open>Retry\<close>, at its \<open>stack\<close> and at its
  \<open>message\<close> (both \<open>undefined\<close> for a value without such a property, a thrown string
  for one).
\<close>

record thrown_value =
  is_Retry :: bool
  stack :: "string option"
  message :: "string option"

datatype thrown = Undefined | Null | Thrown thrown_value

fun instanceof_Retry :: "thrown \<Rightarrow> bool" where
  "instanceof_Retry Undefined = False"
| "instanceof_Retry Null = False"
| "instanceof_Retry (Thrown v) = is_Retry v"

fun nullish :: "thrown \<Rightarrow> bool" where
  "nullish Undefined = True"
| "nullish Null = True"
| "nullish (Thrown v) = False"

text \<open>
  The \<open>TypeError\<close> that the runtime raises (its stack is given by its first line), and
  the property reads \<open>e.stack\<close> and \<open>e.message\<close>: reading a property of \<open>undefined\<close> or
  \<open>null\<close> raises a \<open>TypeError\<close>.
\<close>

definition TypeError :: "string \<Rightarrow> thrown" where
  "TypeError msg =
     Thrown \<lparr>is_Retry = False, stack = Some (''TypeError: '' @ msg), message = Some msg\<rparr>"

definition cannot_read :: "string \<Rightarrow> string \<Rightarrow> thrown" where
  "cannot_read what prop =
     TypeError (''Cannot read properties of '' @ what @ '' (reading '' @ [CHR 0x27] @ prop
                @ [CHR 0x27] @ '')'')"

fun read_property :: "thrown \<Rightarrow> string \<Rightarrow> thrown + string option" where
  "read_property Undefined prop = Inl (cannot_read ''undefined'' prop)"
| "read_property Null prop = Inl (cannot_read ''null'' prop)"
| "read_property (Thrown v) prop =
     Inr (if prop = ''stack'' then stack v else if prop = ''message'' then message v else None)"

datatype outcome = Returned | Threw thrown

record http_request =
  req_hostname :: "string option"
  req_path :: "string option"
  req_method :: string
  req_content_type :: string
  req_body :: "jobject response"

datatype logarg = LString string | LResponse "jobject response" | LEvent event

datatype action =
    ConsoleLog string "logarg list"
  | HttpRequest http_request
  | Sleep nat

text \<open>
  The world: the module-level toggle \<open>includeStackTraces\<close>, the actions performed so far,
  and the network. \<open>transport w n\<close> is how the \<open>n\<close>-th request made in this world ends
  (\<open>None\<close>: delivered; \<open>Some e\<close>: rejected with \<open>e\<close>); \<open>sent\<close> counts the requests made.
\<close>

record world =
  includeStackTraces :: bool
  trace :: "action list"
  transport :: "nat \<Rightarrow> thrown option"
  sent :: nat

subsection \<open>Collaborators of the module\<close>

text \<open>
  Modelled from the spec: \<open>log\<close> of \<open>./util\<close>, which is not among the sources. It emits
  one log line made of a title and further arguments.
\<close>

definition log :: "string \<Rightarrow> logarg list \<Rightarrow> world \<Rightarrow> world" where
  "log title args w = w\<lparr>trace := trace w @ [ConsoleLog title args]\<rparr>"

text \<open>
  Modelled from the spec: \<open>httpRequest\<close> of \<open>./outbound\<close>, which is not among the sources.
  One call is one delivery attempt of the serialized payload; the network decides
  whether it succeeds.
\<close>

definition httpRequest :: "http_request \<Rightarrow> world \<Rightarrow> outcome \<times> world" where
  "httpRequest req w =
     ((case transport w (sent w) of None \<Rightarrow> Returned | Some e \<Rightarrow> Threw e),
      w\<lparr>trace := trace w @ [HttpRequest req], sent := Suc (sent w)\<rparr>)"

text \<open>
  Modelled from the spec: the options of \<open>withRetries\<close> (\<open>./util\<close> is not among the
  sources), the number of attempts and the delay in milliseconds, and the pause itself,
  which shows in the trace.
\<close>

record RetryOptions =
  attempts :: nat
  sleep :: nat

definition delay :: "nat \<Rightarrow> world \<Rightarrow> world" where
  "delay ms w = w\<lparr>trace := trace w @ [Sleep ms]\<rparr>"

text \<open>
  Modelled from the spec: the loop of \<open>withRetries\<close> of \<open>./util\<close>, which is not among
  the sources. \<open>retry n\<close> is an attempt with \<open>n\<close> further attempts left after it: a
  success ends the loop, a failure is followed by the fixed delay and the next attempt,
  and the failure of the last attempt propagates to the caller.
\<close>

fun retry :: "nat \<Rightarrow> nat \<Rightarrow> (world \<Rightarrow> outcome \<times> world) \<Rightarrow> world \<Rightarrow> outcome \<times> world" where
  "retry 0 ms fn w = fn w"
| "retry (Suc n) ms fn w =
     (case fn w of
        (Returned, w') \<Rightarrow> (Returned, w')
      | (Threw e, w') \<Rightarrow> retry n ms fn (delay ms w'))"

text \<open>
  Modelled from the spec: \<open>withRetries\<close> of \<open>./util\<close>, which is not among the sources: a
  bounded-retry wrapper, up to \<open>attempts\<close> attempts with a fixed delay of \<open>sleep\<close>
  milliseconds between attempts; if all attempts fail, the error propagates to the
  caller.
\<close>

definition withRetries ::
  "RetryOptions \<Rightarrow> (world \<Rightarrow> outcome \<times> world) \<Rightarrow> world \<Rightarrow> outcome \<times> world" where
  "withRetries options fn = retry (attempts options - 1) (sleep options) fn"

text \<open>
  \<open>url.parse\<close> of Node.js (the legacy parser), for addresses of the form
  \<open>[scheme:][//][user@]host[:port][/path][?query][#fragment]\<close> and for bare paths with
  an optional query. A host follows a scheme and \<open>//\<close>, or a scheme other than the
  slashed ones (\<open>http:\<close>, \<open>https:\<close>, ...) without \<open>//\<close>, or a leading \<open>//user@host\<close>
  without a scheme; a \<open>javascript:\<close> address has none. The host ends at the first \<open>/\<close>,
  \<open>?\<close> or \<open>#\<close>, and user information up to the last \<open>@\<close> before that is not part of
  it. The scheme and the host name are lower-cased, the port is not part of \<open>hostname\<close>,
  an empty path after a host of a slashed scheme is \<open>/\<close>, and \<open>path\<close> is \<open>pathname\<close>
  followed by \<open>search\<close>. Components that are missing are \<open>null\<close>. Left out: white space
  around the address, backslashes, characters that cannot stand in a host name (they
  end the host too), IPv6 literals, and the escaping of characters in the path.
\<close>

record Url =
  protocol :: "string option"
  hostname :: "string option"
  pathname :: "string option"
  search :: "string option"
  path :: "string option"

definition lower :: "char \<Rightarrow> char" where
  "lower c =
     (case map_of (zip ''ABCDEFGHIJKLMNOPQRSTUVWXYZ'' ''abcdefghijklmnopqrstuvwxyz'') c of
        Some l \<Rightarrow> l
      | None \<Rightarrow> c)"

definition is_digit :: "char \<Rightarrow> bool" where
  "is_digit c = (c \<in> set ''0123456789'')"

definition is_scheme_char :: "char \<Rightarrow> bool" where
  "is_scheme_char c =
     (c \<in> set ''abcdefghijklmnopqrstuvwxyz'' \<or> c \<in> set ''ABCDEFGHIJKLMNOPQRSTUVWXYZ''
      \<or> is_digit c \<or> c = CHR ''.'' \<or> c = CHR ''+'' \<or> c = CHR ''-'')"

definition slashedProtocol :: "string \<Rightarrow> bool" where
  "slashedProtocol p = (p \<in> set [''http:'', ''https:'', ''ftp:'', ''gopher:'', ''file:'', ''ws:'', ''wss:''])"

definition hostlessProtocol :: "string \<Rightarrow> bool" where
  "hostlessProtocol p = (p = ''javascript:'')"

definition host_end :: "char \<Rightarrow> bool" where
  "host_end c = (c = CHR ''/'' \<or> c = CHR ''?'' \<or> c = CHR ''#'')"

text \<open>The pattern \<open>^//[^@/]+@[^@/]+\<close>.\<close>

definition hostPattern :: "string \<Rightarrow> bool" where
  "hostPattern s =
     (let plain = (\<lambda>c. c \<noteq> CHR ''@'' \<and> c \<noteq> CHR ''/'');
          t = drop 2 s;
          u = dropWhile plain t
      in take 2 s = ''//'' \<and> takeWhile plain t \<noteq> [] \<and> take 1 u = ''@''
         \<and> takeWhile plain (drop 1 u) \<noteq> [])"

definition after_last_at :: "string \<Rightarrow> string" where
  "after_last_at s = rev (takeWhile (\<lambda>c. c \<noteq> CHR ''@'') (rev s))"

definition strip_port :: "string \<Rightarrow> string" where
  "strip_port h =
     (let r = dropWhile is_digit (rev h)
      in case r of c # r' \<Rightarrow> (if c = CHR '':'' then rev r' else h) | [] \<Rightarrow> h)"

definition url_parse :: "string \<Rightarrow> Url" where
  "url_parse s =
     (let scheme = takeWhile is_scheme_char s;
          after = dropWhile is_scheme_char s;
          has_proto = (scheme \<noteq> [] \<and> take 1 after = '':'');
          proto = (if has_proto then Some (map lower scheme @ '':'') else None);
          rest = (if has_proto then drop 1 after else s);
          hostless = (has_proto \<and> hostlessProtocol (tmpl proto));
          slashes = ((has_proto \<or> hostPattern rest) \<and> take 2 rest = ''//'');
          rest1 = (if slashes \<and> \<not> hostless then drop 2 rest else rest);
          has_host = (\<not> hostless
                      \<and> (slashes \<or> (has_proto \<and> \<not> slashedProtocol (tmpl proto))));
          host = (if has_host then after_last_at (takeWhile (\<lambda>c. \<not> host_end c) rest1)
                  else []);
          rest' = (if has_host then dropWhile (\<lambda>c. \<not> host_end c) rest1 else rest1);
          hostnm = (if has_host then Some (map lower (strip_port host)) else None);
          no_hash = takeWhile (\<lambda>c. c \<noteq> CHR ''#'') rest';
          p = takeWhile (\<lambda>c. c \<noteq> CHR ''?'') no_hash;
          q = dropWhile (\<lambda>c. c \<noteq> CHR ''?'') no_hash;
          pathnm = (if p \<noteq> [] then Some p
                    else if slashedProtocol (tmpl proto) \<and> truthy hostnm then Some ''/''
                    else None);
          srch = (if q \<noteq> [] then Some q else None)
      in \<lparr>protocol = proto, hostname = hostnm, pathname = pathnm, search = srch,
          path = (if pathnm = None \<and> srch = None then None
                  else Some ((case pathnm of None \<Rightarrow> [] | Some x \<Rightarrow> x)
                             @ (case srch of None \<Rightarrow> [] | Some x \<Rightarrow> x)))\<rparr>)"

subsection \<open>redactDataFromPayload, the value it returns\<close>

definition REDACTED :: jvalue where
  "REDACTED = JStr ''*****''"

text \<open>
  What the object that \<open>redactDataFromPayload\<close> returns reads as, given what its
  argument reads as: the JSON copy of the argument, and its data with the loop
  \<open>for (const key of keys) Data[key] = '*****'\<close> run over its keys. The function itself,
  which works on objects, is in the subsection on the object store; that it returns
  this value is part of the redaction theorem.
\<close>

definition redact_keys :: "string list \<Rightarrow> jobject \<Rightarrow> jobject" where
  "redact_keys keys d = fold (\<lambda>key d'. AList.update key REDACTED d') keys d"

definition redactedPayload :: "jobject response \<Rightarrow> jobject response" where
  "redactedPayload payload =
     (let copy = JSON_response payload
      in case resp_Data copy of
           None \<Rightarrow> copy
         | Some d \<Rightarrow> copy\<lparr>resp_Data := Some (redact_keys (map fst d) d)\<rparr>)"

subsection \<open>submitResponse\<close>

definition response_json ::
  "status \<Rightarrow> event \<Rightarrow> CloudFormationResponseOptions \<Rightarrow> jobject response" where
  "response_json st ev options =
     \<lparr>resp_Status = st,
      resp_Reason = or_else (reason options) (status_str st),
      resp_StackId = StackId ev,
      resp_RequestId = RequestId ev,
      resp_PhysicalResourceId = or_else (PhysicalResourceId ev) MISSING_PHYSICAL_ID_MARKER,
      resp_LogicalResourceId = LogicalResourceId ev,
      resp_NoEcho = noEcho options,
      resp_Data = Data ev\<rparr>"

definition loggingSafeUrl :: "Url \<Rightarrow> string" where
  "loggingSafeUrl parsedUrl =
     tmpl (protocol parsedUrl) @ ''//'' @ tmpl (hostname parsedUrl) @ ''/''
       @ tmpl (pathname parsedUrl) @ ''?***''"

definition retryOptions :: RetryOptions where
  "retryOptions = \<lparr>attempts = 5, sleep = 1000\<rparr>"

text \<open>
  The request carries the body \<open>JSON.stringify(json)\<close>, here the response that this text
  stands for; it is sent with an empty \<open>content-type\<close> and the byte length of the text as
  \<open>content-length\<close>.
\<close>

definition put_request :: "Url \<Rightarrow> jobject response \<Rightarrow> http_request" where
  "put_request parsedUrl json =
     \<lparr>req_hostname = hostname parsedUrl, req_path = path parsedUrl, req_method = ''PUT'',
      req_content_type = [], req_body = JSON_response json\<rparr>"

definition submitResponse ::
  "status \<Rightarrow> event \<Rightarrow> CloudFormationResponseOptions \<Rightarrow> world \<Rightarrow> outcome \<times> world" where
  "submitResponse st ev options w =
     (let json = response_json st ev options;
          parsedUrl = url_parse (ResponseURL ev);
          w1 = (if noEcho options = Some True
                then log ''submit redacted response to cloudformation''
                       [LString (loggingSafeUrl parsedUrl), LResponse (redactedPayload json)] w
                else log ''submit response to cloudformation''
                       [LString (loggingSafeUrl parsedUrl), LResponse json] w)
      in withRetries retryOptions (httpRequest (put_request parsedUrl json)) w1)"

text \<open>The default \<open>options = { }\<close>.\<close>

definition no_options :: CloudFormationResponseOptions where
  "no_options = \<lparr>reason = None, noEcho = None\<rparr>"

subsection \<open>safeHandler\<close>

text \<open>
  The inner handler \<open>block\<close> is any asynchronous function of the event. It returns or
  throws, may change the event object it is given (the object is shared with the wrapper)
  and may act on the world. It hands back the outcome, the event as it left it, and the
  world as it left it.
\<close>

type_synonym handler = "event \<Rightarrow> world \<Rightarrow> outcome \<times> event \<times> world"

text \<open>
  What one call of the wrapped handler amounts to: how it ended, the final state of the
  event object, the final world, and (for stating properties only) what the call of the
  inner handler gave, \<open>None\<close> when the inner handler was not called.
\<close>

record handled =
  result :: outcome
  event_after :: event
  world_after :: world
  inner :: "(outcome \<times> event \<times> world) option"

definition malformed_title :: string where
  "malformed_title = ''ERROR: Malformed event. \"PhysicalResourceId\" is required: ''"

text \<open>
  The part of the \<open>catch\<close> block before the report: the marker for a failed CREATE, or the
  log line for a malformed event (whose text ends with the JSON of the event, its
  \<open>ResponseURL\<close> replaced by dots). The report that follows reads \<open>e.stack\<close> or
  \<open>e.message\<close> first, as the argument of \<open>submitResponse\<close>: when the thrown value is
  \<open>undefined\<close> or \<open>null\<close>, that read raises a \<open>TypeError\<close>, the wrapped handler ends with
  it, and nothing is submitted.
\<close>

definition mark_failed :: "event \<Rightarrow> world \<Rightarrow> event \<times> world" where
  "mark_failed ev w =
     (if \<not> truthy (PhysicalResourceId ev) then
        (if RequestType ev = ''Create'' then
           (ev\<lparr>PhysicalResourceId := Some CREATE_FAILED_PHYSICAL_ID_MARKER\<rparr>,
            log ''CREATE failed, responding with a marker physical resource id so that the subsequent DELETE will be ignored'' [] w)
         else
           (ev, log malformed_title [LEvent (ev\<lparr>ResponseURL := ''...''\<rparr>)] w))
      else (ev, w))"

definition safeHandler :: "handler \<Rightarrow> event \<Rightarrow> world \<Rightarrow> handled" where
  "safeHandler block ev w =
     (if RequestType ev = ''Delete''
         \<and> PhysicalResourceId ev = Some CREATE_FAILED_PHYSICAL_ID_MARKER then
        (let w1 = log ''ignoring DELETE event caused by a failed CREATE event'' [] w;
             (r, w2) = submitResponse SUCCESS ev no_options w1
         in \<lparr>result = r, event_after = ev, world_after = w2, inner = None\<rparr>)
      else
        (case block ev w of
           (Returned, ev1, w1) \<Rightarrow>
             \<lparr>result = Returned, event_after = ev1, world_after = w1,
              inner = Some (Returned, ev1, w1)\<rparr>
         | (Threw e, ev1, w1) \<Rightarrow>
             if instanceof_Retry e then
               \<lparr>result = Threw e, event_after = ev1,
                world_after = log ''retry requested by handler'' [] w1,
                inner = Some (Threw e, ev1, w1)\<rparr>
             else
               (let (ev2, w2) = mark_failed ev1 w1
                in case read_property e (if includeStackTraces w2 then ''stack''
                                         else ''message'') of
                     Inl type_error \<Rightarrow>
                       \<lparr>result = Threw type_error, event_after = ev2, world_after = w2,
                        inner = Some (Threw e, ev1, w1)\<rparr>
                   | Inr rsn \<Rightarrow>
                       (let (r, w3) = submitResponse FAILED ev2
                                        \<lparr>reason = rsn, noEcho = None\<rparr> w2
                        in \<lparr>result = r, event_after = ev2, world_after = w3,
                            inner = Some (Threw e, ev1, w1)\<rparr>))))"

subsection \<open>redactDataFromPayload on the object store\<close>

text \<open>
  Whether the function changes its argument is a question about objects, not values. The
  store holds the objects; an address is an index into it. A response object refers to
  its data object by address.
\<close>

type_synonym addr = nat

datatype object = ResponseObject "addr response" | DataObject jobject

type_synonym store = "object list"

definition with_Data :: "'a response \<Rightarrow> 'b option \<Rightarrow> 'b response" where
  "with_Data r d =
     \<lparr>resp_Status = resp_Status r, resp_Reason = resp_Reason r, resp_StackId = resp_StackId r,
      resp_RequestId = resp_RequestId r, resp_PhysicalResourceId = resp_PhysicalResourceId r,
      resp_LogicalResourceId = resp_LogicalResourceId r, resp_NoEcho = resp_NoEcho r,
      resp_Data = d\<rparr>"

text \<open>
  What the object at an address reads as, field for field, its data read from the data
  object it refers to (\<open>None\<close>: there is no response object at the address).
\<close>

definition read_response :: "store \<Rightarrow> addr \<Rightarrow> jobject response option" where
  "read_response h p =
     (if p < length h then
        (case h ! p of
           ResponseObject r \<Rightarrow>
             (case resp_Data r of
                None \<Rightarrow> Some (with_Data r None)
              | Some d \<Rightarrow>
                  (if d < length h then
                     (case h ! d of
                        DataObject m \<Rightarrow> Some (with_Data r (Some m))
                      | ResponseObject _ \<Rightarrow> None)
                   else None))
         | DataObject _ \<Rightarrow> None)
      else None)"

text \<open>
  \<open>JSON.stringify\<close> reads the object at an address into its JSON text, which leaves out
  what JSON leaves out; \<open>JSON.parse\<close> builds new objects for a text, at the end of the
  store.
\<close>

definition JSON_stringify :: "store \<Rightarrow> addr \<Rightarrow> jobject response option" where
  "JSON_stringify h p = map_option JSON_response (read_response h p)"

definition JSON_parse :: "jobject response \<Rightarrow> store \<Rightarrow> addr \<times> store" where
  "JSON_parse v h =
     (case resp_Data v of
        None \<Rightarrow> (length h, h @ [ResponseObject (with_Data v None)])
      | Some m \<Rightarrow>
          (Suc (length h),
           h @ [DataObject m, ResponseObject (with_Data v (Some (length h)))]))"

text \<open>The assignment \<open>Data[key] = value\<close> to the data object at address \<open>d\<close>.\<close>

definition assign_key :: "addr \<Rightarrow> string \<Rightarrow> jvalue \<Rightarrow> store \<Rightarrow> store" where
  "assign_key d key v h =
     (case h ! d of
        DataObject m \<Rightarrow> h[d := DataObject (AList.update key v m)]
      | ResponseObject _ \<Rightarrow> h)"

definition redactDataFromPayload :: "addr \<Rightarrow> store \<Rightarrow> (addr \<times> store) option" where
  "redactDataFromPayload payload h =
     (case JSON_stringify h payload of
        None \<Rightarrow> None
      | Some v \<Rightarrow>
          (let (r, h1) = JSON_parse v h
           in case h1 ! r of
                ResponseObject robj \<Rightarrow>
                  (case resp_Data robj of
                     None \<Rightarrow> Some (r, h1)
                   | Some d \<Rightarrow>
                       (case h1 ! d of
                          DataObject m \<Rightarrow>
                            Some (r, fold (\<lambda>key. assign_key d key REDACTED) (map fst m) h1)
                        | ResponseObject _ \<Rightarrow> None))
              | DataObject _ \<Rightarrow> None))"

subsection \<open>Observing a run\<close>

text \<open>The actions a step added to the trace, and the requests among a list of actions.\<close>

definition emitted :: "world \<Rightarrow> world \<Rightarrow> action list" where
  "emitted w w' = drop (length (trace w)) (trace w')"

fun requests :: "action list \<Rightarrow> http_request list" where
  "requests [] = []"
| "requests (HttpRequest r # t) = r # requests t"
| "requests (ConsoleLog _ _ # t) = requests t"
| "requests (Sleep _ # t) = requests t"

fun log_lines :: "action list \<Rightarrow> (string \<times> logarg list) list" where
  "log_lines [] = []"
| "log_lines (ConsoleLog title args # t) = (title, args) # log_lines t"
| "log_lines (HttpRequest _ # t) = log_lines t"
| "log_lines (Sleep _ # t) = log_lines t"

fun sleeps :: "action list \<Rightarrow> nat list" where
  "sleeps [] = []"
| "sleeps (Sleep ms # t) = ms # sleeps t"
| "sleeps (HttpRequest _ # t) = sleeps t"
| "sleeps (ConsoleLog _ _ # t) = sleeps t"

text \<open>
  One delivery through the retry wrapper that took \<open>k\<close> failed attempts before its last
  attempt: the requests, with one pause after each failed attempt.
\<close>

definition delivery :: "nat \<Rightarrow> nat \<Rightarrow> http_request \<Rightarrow> action list" where
  "delivery k ms req = concat (replicate k [HttpRequest req, Sleep ms]) @ [HttpRequest req]"

text \<open>
  What one call of \<open>submitResponse\<close> logs and what it sends, read off its body.
\<close>

definition submit_line :: "status \<Rightarrow> event \<Rightarrow> CloudFormationResponseOptions \<Rightarrow> action" where
  "submit_line st ev options =
     (if noEcho options = Some True
      then ConsoleLog ''submit redacted response to cloudformation''
             [LString (loggingSafeUrl (url_parse (ResponseURL ev))),
              LResponse (redactedPayload (response_json st ev options))]
      else ConsoleLog ''submit response to cloudformation''
             [LString (loggingSafeUrl (url_parse (ResponseURL ev))),
              LResponse (response_json st ev options)])"

definition submit_request ::
  "status \<Rightarrow> event \<Rightarrow> CloudFormationResponseOptions \<Rightarrow> http_request" where
  "submit_request st ev options =
     put_request (url_parse (ResponseURL ev)) (response_json st ev options)"

text \<open>
  The options of a failure report, and the other log lines of \<open>safeHandler\<close>, read off
  its body.
\<close>

definition failure_options :: "thrown \<Rightarrow> world \<Rightarrow> CloudFormationResponseOptions" where
  "failure_options e w =
     \<lparr>reason = (case read_property e (if includeStackTraces w then ''stack'' else ''message'') of
                  Inr rsn \<Rightarrow> rsn
                | Inl _ \<Rightarrow> None),
      noEcho = None\<rparr>"

definition ignoring_line :: action where
  "ignoring_line = ConsoleLog ''ignoring DELETE event caused by a failed CREATE event'' []"

definition create_failed_line :: action where
  "create_failed_line = ConsoleLog ''CREATE failed, responding with a marker physical resource id so that the subsequent DELETE will be ignored'' []"

definition malformed_line :: "event \<Rightarrow> action" where
  "malformed_line ev = ConsoleLog malformed_title [LEvent (ev\<lparr>ResponseURL := ''...''\<rparr>)]"

text \<open>
  The keys of the data of the response object at an address, and the keys of the data of
  the object that \<open>redactDataFromPayload\<close> returns.
\<close>

definition data_keys :: "store \<Rightarrow> addr \<Rightarrow> string list option" where
  "data_keys h p =
     (case read_response h p of
        None \<Rightarrow> None
      | Some v \<Rightarrow> (case resp_Data v of None \<Rightarrow> None | Some d \<Rightarrow> Some (map fst d)))"

definition result_keys :: "addr \<Rightarrow> store \<Rightarrow> string list option" where
  "result_keys payload h =
     (case redactDataFromPayload payload h of
        None \<Rightarrow> None
      | Some (r, h') \<Rightarrow> data_keys h' r)"

subsection \<open>Concrete inputs\<close>

text \<open>A fresh world whose network delivers every request.\<close>

definition world0 :: world where
  "world0 = \<lparr>includeStackTraces = True, trace = [], transport = (\<lambda>n. None), sent = 0\<rparr>"

text \<open>The event of the spec's scenario: no physical id, callback \<open>http://x/y?t=1\<close>.\<close>

definition scenario_event :: event where
  "scenario_event =
     \<lparr>RequestType = ''Create'', StackId = ''s'', RequestId = ''r'',
      PhysicalResourceId = None, LogicalResourceId = ''L'',
      ResponseURL = ''http://x/y?t=1'', Data = None\<rparr>"

definition boom :: CloudFormationResponseOptions where
  "boom = \<lparr>reason = Some ''boom'', noEcho = None\<rparr>"

definition empty_reason :: CloudFormationResponseOptions where
  "empty_reason = \<lparr>reason = Some [], noEcho = None\<rparr>"

text \<open>Thrown values, inner handlers and events to run the wrapper on.\<close>

definition app_error :: thrown where
  "app_error =
     Thrown \<lparr>is_Retry = False, stack = Some ''Error: boom at handler'', message = Some ''boom''\<rparr>"

definition retry_signal :: thrown where
  "retry_signal =
     Thrown \<lparr>is_Retry = True, stack = Some ''Error: not yet at handler'', message = Some ''not yet''\<rparr>"

definition failing_block :: handler where
  "failing_block ev w = (Threw app_error, ev, w)"

definition retrying_block :: handler where
  "retrying_block ev w = (Threw retry_signal, ev, w)"

definition assigning_block :: handler where
  "assigning_block ev w = (Threw app_error, ev\<lparr>PhysicalResourceId := Some ''res-1''\<rparr>, w)"

definition delete_after_failed_create :: event where
  "delete_after_failed_create =
     scenario_event\<lparr>RequestType := ''Delete'',
       PhysicalResourceId := Some CREATE_FAILED_PHYSICAL_ID_MARKER\<rparr>"

definition update_without_id :: event where
  "update_without_id = scenario_event\<lparr>RequestType := ''Update''\<rparr>"

definition create_with_id :: event where
  "create_with_id = scenario_event\<lparr>PhysicalResourceId := Some ''abc''\<rparr>"

text \<open>
  A network that rejects the first four requests and delivers the fifth, and one that
  rejects every request.
\<close>

definition net_error :: thrown where
  "net_error =
     Thrown \<lparr>is_Retry = False, stack = Some ''Error: connect ETIMEDOUT'',
       message = Some ''connect ETIMEDOUT''\<rparr>"

definition flaky_world :: world where
  "flaky_world = \<lparr>includeStackTraces = True, trace = [],
     transport = (\<lambda>n. if n < 4 then Some net_error else None), sent = 0\<rparr>"

definition dead_world :: world where
  "dead_world = \<lparr>includeStackTraces = True, trace = [],
     transport = (\<lambda>n. Some net_error), sent = 0\<rparr>"

text \<open>A store with one response object and its data object.\<close>

definition store0 :: store where
  "store0 =
     [DataObject [(''Password'', JStr ''hunter2''), (''Port'', JNum 5432)],
      ResponseObject
        \<lparr>resp_Status = SUCCESS, resp_Reason = ''SUCCESS'', resp_StackId = ''s'',
         resp_RequestId = ''r'', resp_PhysicalResourceId = ''db-1'',
         resp_LogicalResourceId = ''L'', resp_NoEcho = Some True, resp_Data = Some 0\<rparr>]"

text \<open>A store whose data object has a property with the value \<open>undefined\<close>.\<close>

definition store1 :: store where
  "store1 =
     [DataObject [(''a'', JUndefined), (''b'', JNum 1)],
      ResponseObject
        \<lparr>resp_Status = SUCCESS, resp_Reason = ''SUCCESS'', resp_StackId = ''s'',
         resp_RequestId = ''r'', resp_PhysicalResourceId = ''db-1'',
         resp_LogicalResourceId = ''L'', resp_NoEcho = Some True, resp_Data = Some 0\<rparr>]"

section \<open>Properties\<close>

subsection \<open>The retry wrapper and one submission\<close>

text \<open>
  A delivery through \<open>retry n\<close> ends at its attempt number \<open>k\<close> (counted from 0) with
  \<open>k \<le> n\<close>: all attempts before it failed, its own outcome is the outcome of the
  delivery, and it is the last of the \<open>n + 1\<close> attempts or it succeeded.
\<close>

lemma retry_httpRequest:
  "\<exists>k\<le>n. retry n ms (httpRequest req) w =
      ((case transport w (sent w + k) of None \<Rightarrow> Returned | Some e \<Rightarrow> Threw e),
       w\<lparr>trace := trace w @ delivery k ms req, sent := sent w + Suc k\<rparr>)
     \<and> (\<forall>i<k. transport w (sent w + i) \<noteq> None)
     \<and> (k < n \<longrightarrow> transport w (sent w + k) = None)"
proof (induction n arbitrary: w)
  case 0
  show ?case by (simp add: httpRequest_def delivery_def)
next
  case (Suc n)
  show ?case
  proof (cases "transport w (sent w)")
    case None
    then show ?thesis
      by (intro exI[of _ 0]) (simp add: httpRequest_def delivery_def)
  next
    case (Some e)
    let ?w = "delay ms (snd (httpRequest req w))"
    from Suc.IH[of ?w] obtain k where k: "k \<le> n"
      "retry n ms (httpRequest req) ?w =
      ((case transport ?w (sent ?w + k) of None \<Rightarrow> Returned | Some e \<Rightarrow> Threw e),
       ?w\<lparr>trace := trace ?w @ delivery k ms req, sent := sent ?w + Suc k\<rparr>)"
      "\<forall>i<k. transport ?w (sent ?w + i) \<noteq> None"
      "k < n \<longrightarrow> transport ?w (sent ?w + k) = None" by blast
    have tw: "transport ?w = transport w" "sent ?w = Suc (sent w)"
      "trace ?w = trace w @ [HttpRequest req, Sleep ms]"
      by (simp_all add: httpRequest_def delay_def)
    show ?thesis
    proof (intro exI[of _ "Suc k"] conjI allI impI)
      show "Suc k \<le> Suc n" using k by simp
      show "retry (Suc n) ms (httpRequest req) w =
        (case transport w (sent w + Suc k) of None \<Rightarrow> Returned | Some x \<Rightarrow> Threw x,
         w\<lparr>trace := trace w @ delivery (Suc k) ms req, sent := sent w + Suc (Suc k)\<rparr>)"
        using k(2) Some unfolding tw
        by (simp add: httpRequest_def delay_def delivery_def)
      show "transport w (sent w + i) \<noteq> None" if "i < Suc k" for i
        using that k(3) Some unfolding tw by (cases i) auto
      show "transport w (sent w + Suc k) = None" if "Suc k < Suc n"
        using that k(4) unfolding tw by simp
    qed
  qed
qed

text \<open>
  One call of \<open>submitResponse\<close>: one log line, then one delivery of one and the same
  request, ending at an attempt \<open>k < 5\<close>.
\<close>

lemma submitResponse_run:
  "\<exists>k<5. submitResponse st ev options w =
      ((case transport w (sent w + k) of None \<Rightarrow> Returned | Some e \<Rightarrow> Threw e),
       w\<lparr>trace := trace w @ submit_line st ev options
                    # delivery k 1000 (submit_request st ev options),
         sent := sent w + Suc k\<rparr>)
     \<and> (\<forall>i<k. transport w (sent w + i) \<noteq> None)
     \<and> (k < 4 \<longrightarrow> transport w (sent w + k) = None)"
proof -
  let ?w1 = "w\<lparr>trace := trace w @ [submit_line st ev options]\<rparr>"
  have eq: "submitResponse st ev options w =
      retry 4 1000 (httpRequest (submit_request st ev options)) ?w1"
    by (simp add: submitResponse_def Let_def withRetries_def retryOptions_def log_def
        submit_line_def submit_request_def)
  from retry_httpRequest[of 4 1000 "submit_request st ev options" ?w1]
  obtain k where "k \<le> 4"
    "retry 4 1000 (httpRequest (submit_request st ev options)) ?w1 =
      ((case transport ?w1 (sent ?w1 + k) of None \<Rightarrow> Returned | Some e \<Rightarrow> Threw e),
       ?w1\<lparr>trace := trace ?w1 @ delivery k 1000 (submit_request st ev options),
           sent := sent ?w1 + Suc k\<rparr>)"
    "\<forall>i<k. transport ?w1 (sent ?w1 + i) \<noteq> None"
    "k < 4 \<longrightarrow> transport ?w1 (sent ?w1 + k) = None" by blast
  then show ?thesis unfolding eq
    by (intro exI[of _ k]) simp
qed

lemma requests_delivery: "requests (delivery k ms req) = replicate (Suc k) req"
  by (induction k) (simp_all add: delivery_def)

lemma log_lines_delivery: "log_lines (delivery k ms req) = []"
  by (induction k) (simp_all add: delivery_def)

lemma sleeps_delivery: "sleeps (delivery k ms req) = replicate k ms"
  by (induction k) (simp_all add: delivery_def)

lemma submitResponse_emitted:
  "\<exists>k<5. emitted w (snd (submitResponse st ev options w))
      = submit_line st ev options # delivery k 1000 (submit_request st ev options)"
proof -
  from submitResponse_run[of st ev options w] obtain k where k: "k < 5"
    "submitResponse st ev options w =
      ((case transport w (sent w + k) of None \<Rightarrow> Returned | Some e \<Rightarrow> Threw e),
       w\<lparr>trace := trace w @ submit_line st ev options
                    # delivery k 1000 (submit_request st ev options),
         sent := sent w + Suc k\<rparr>)" by blast
  have "emitted w (snd (submitResponse st ev options w))
      = submit_line st ev options # delivery k 1000 (submit_request st ev options)"
    unfolding k(2) by (simp add: emitted_def)
  then show ?thesis using k(1) by blast
qed

lemma submitResponse_requests:
  "\<exists>k<5. requests (emitted w (snd (submitResponse st ev options w)))
      = replicate (Suc k) (submit_request st ev options)"
proof -
  from submitResponse_emitted[of w st ev options] obtain k where "k < 5"
    "emitted w (snd (submitResponse st ev options w))
      = submit_line st ev options # delivery k 1000 (submit_request st ev options)" by blast
  then show ?thesis
    by (intro exI[of _ k]) (simp add: requests_delivery submit_line_def)
qed

lemma submitResponse_body:
  assumes "r \<in> set (requests (emitted w (snd (submitResponse st ev options w))))"
  shows "req_body r = JSON_response (response_json st ev options)"
proof -
  from submitResponse_requests[of w st ev options] assms
  have "r = submit_request st ev options" by auto
  then show ?thesis by (simp add: submit_request_def put_request_def)
qed

lemma submitResponse_sends: "requests (emitted w (snd (submitResponse st ev options w))) \<noteq> []"
  using submitResponse_requests[of w st ev options] by auto

subsection \<open>The payload\<close>

text \<open>
  Claim C4, as it holds of the code. Every request \<open>submitResponse\<close> sends (and it sends
  at least one) carries a payload whose \<open>PhysicalResourceId\<close> is never empty: it is the
  missing-id marker when the event has no physical id, and the event's id when that is a
  non-empty string. Its \<open>Reason\<close> is \<open>options.reason\<close> when that is a non-empty string,
  and the stringified status when no reason is given or the reason is the empty string.
\<close>

theorem submitResponse_payload:
  "requests (emitted w (snd (submitResponse st ev options w))) \<noteq> []
   \<and> (\<forall>r \<in> set (requests (emitted w (snd (submitResponse st ev options w)))).
         resp_PhysicalResourceId (req_body r) \<noteq> []
       \<and> (PhysicalResourceId ev = None \<longrightarrow>
            resp_PhysicalResourceId (req_body r) = MISSING_PHYSICAL_ID_MARKER)
       \<and> (\<forall>i. PhysicalResourceId ev = Some i \<and> i \<noteq> [] \<longrightarrow>
            resp_PhysicalResourceId (req_body r) = i)
       \<and> (\<forall>x. reason options = Some x \<and> x \<noteq> [] \<longrightarrow> resp_Reason (req_body r) = x)
       \<and> (reason options = None \<or> reason options = Some [] \<longrightarrow>
            resp_Reason (req_body r) = status_str st))"
proof (intro conjI ballI)
  show "requests (emitted w (snd (submitResponse st ev options w))) \<noteq> []"
    by (rule submitResponse_sends)
next
  fix r assume "r \<in> set (requests (emitted w (snd (submitResponse st ev options w))))"
  then have b: "req_body r = JSON_response (response_json st ev options)"
    by (rule submitResponse_body)
  show "resp_PhysicalResourceId (req_body r) \<noteq> []"
    unfolding b by (cases "PhysicalResourceId ev")
      (simp_all add: JSON_response_def response_json_def or_else_def MISSING_PHYSICAL_ID_MARKER_def)
  show "PhysicalResourceId ev = None \<longrightarrow>
      resp_PhysicalResourceId (req_body r) = MISSING_PHYSICAL_ID_MARKER"
    unfolding b by (simp add: JSON_response_def response_json_def or_else_def)
  show "\<forall>i. PhysicalResourceId ev = Some i \<and> i \<noteq> [] \<longrightarrow>
      resp_PhysicalResourceId (req_body r) = i"
    unfolding b by (simp add: JSON_response_def response_json_def or_else_def)
  show "\<forall>x. reason options = Some x \<and> x \<noteq> [] \<longrightarrow> resp_Reason (req_body r) = x"
    unfolding b by (simp add: JSON_response_def response_json_def or_else_def)
  show "reason options = None \<or> reason options = Some [] \<longrightarrow>
      resp_Reason (req_body r) = status_str st"
    unfolding b by (auto simp add: JSON_response_def response_json_def or_else_def)
qed

theorem submitResponse_payload_witness:
  "PhysicalResourceId scenario_event = None
   \<and> reason boom = Some ''boom''
   \<and> submit_request FAILED scenario_event boom
       \<in> set (requests (emitted world0 (snd (submitResponse FAILED scenario_event boom world0))))
   \<and> resp_PhysicalResourceId (req_body (submit_request FAILED scenario_event boom))
       = MISSING_PHYSICAL_ID_MARKER
   \<and> resp_Reason (req_body (submit_request FAILED scenario_event boom)) = ''boom''"
proof -
  have m: "submit_request FAILED scenario_event boom
      \<in> set (requests (emitted world0 (snd (submitResponse FAILED scenario_event boom world0))))"
    using submitResponse_requests[of world0 FAILED scenario_event boom] by auto
  have h: "PhysicalResourceId scenario_event = None" "reason boom = Some ''boom''"
    by (simp_all add: scenario_event_def boom_def)
  from submitResponse_payload[of world0 FAILED scenario_event boom] m h
  show ?thesis by auto
qed

text \<open>
  Claim C4 as stated fails for a reason that is supplied but empty: the payload's
  \<open>Reason\<close> is then the stringified status, not the supplied string.
\<close>

theorem supplied_empty_reason_counterexample:
  "reason empty_reason = Some []
   \<and> map (resp_Reason \<circ> req_body)
       (requests (emitted world0 (snd (submitResponse FAILED scenario_event empty_reason world0))))
     = [''FAILED'']"
  by code_simp

text \<open>
  Claim C10. An empty string is treated as an absent value: with the empty string as the
  event's \<open>PhysicalResourceId\<close>, \<open>submitResponse\<close> does exactly what it does without one,
  and every payload it sends carries the missing-id marker; with the empty string as
  \<open>options.reason\<close> it does exactly what it does without a reason, and every payload it
  sends has the stringified status as its \<open>Reason\<close>.
\<close>

theorem empty_string_same_as_absent:
  "submitResponse st (ev\<lparr>PhysicalResourceId := Some []\<rparr>) options w
     = submitResponse st (ev\<lparr>PhysicalResourceId := None\<rparr>) options w
   \<and> submitResponse st ev (options\<lparr>reason := Some []\<rparr>) w
     = submitResponse st ev (options\<lparr>reason := None\<rparr>) w
   \<and> (PhysicalResourceId ev = Some [] \<longrightarrow>
        requests (emitted w (snd (submitResponse st ev options w))) \<noteq> []
        \<and> (\<forall>r \<in> set (requests (emitted w (snd (submitResponse st ev options w)))).
              resp_PhysicalResourceId (req_body r) = MISSING_PHYSICAL_ID_MARKER))
   \<and> (reason options = Some [] \<longrightarrow>
        requests (emitted w (snd (submitResponse st ev options w))) \<noteq> []
        \<and> (\<forall>r \<in> set (requests (emitted w (snd (submitResponse st ev options w)))).
              resp_Reason (req_body r) = status_str st))"
proof (intro conjI impI ballI)
  show "submitResponse st (ev\<lparr>PhysicalResourceId := Some []\<rparr>) options w
     = submitResponse st (ev\<lparr>PhysicalResourceId := None\<rparr>) options w"
    by (simp add: submitResponse_def response_json_def or_else_def)
  show "submitResponse st ev (options\<lparr>reason := Some []\<rparr>) w
     = submitResponse st ev (options\<lparr>reason := None\<rparr>) w"
    by (simp add: submitResponse_def response_json_def or_else_def)
  show "requests (emitted w (snd (submitResponse st ev options w))) \<noteq> []"
    by (rule submitResponse_sends)
  show "requests (emitted w (snd (submitResponse st ev options w))) \<noteq> []"
    by (rule submitResponse_sends)
next
  fix r assume "PhysicalResourceId ev = Some []"
    and "r \<in> set (requests (emitted w (snd (submitResponse st ev options w))))"
  then show "resp_PhysicalResourceId (req_body r) = MISSING_PHYSICAL_ID_MARKER"
    by (simp add: submitResponse_body JSON_response_def response_json_def or_else_def)
next
  fix r assume "reason options = Some []"
    and "r \<in> set (requests (emitted w (snd (submitResponse st ev options w))))"
  then show "resp_Reason (req_body r) = status_str st"
    by (simp add: submitResponse_body JSON_response_def response_json_def or_else_def)
qed

theorem empty_string_same_as_absent_witness:
  "PhysicalResourceId (scenario_event\<lparr>PhysicalResourceId := Some []\<rparr>) = Some []
   \<and> reason empty_reason = Some []
   \<and> submit_request SUCCESS (scenario_event\<lparr>PhysicalResourceId := Some []\<rparr>) empty_reason
       \<in> set (requests (emitted world0 (snd (submitResponse SUCCESS
            (scenario_event\<lparr>PhysicalResourceId := Some []\<rparr>) empty_reason world0))))
   \<and> resp_PhysicalResourceId (req_body (submit_request SUCCESS
        (scenario_event\<lparr>PhysicalResourceId := Some []\<rparr>) empty_reason))
       = MISSING_PHYSICAL_ID_MARKER
   \<and> resp_Reason (req_body (submit_request SUCCESS
        (scenario_event\<lparr>PhysicalResourceId := Some []\<rparr>) empty_reason)) = ''SUCCESS''"
proof -
  let ?ev = "scenario_event\<lparr>PhysicalResourceId := Some []\<rparr>"
  have m: "submit_request SUCCESS ?ev empty_reason
      \<in> set (requests (emitted world0 (snd (submitResponse SUCCESS ?ev empty_reason world0))))"
    using submitResponse_requests[of world0 SUCCESS ?ev empty_reason] by auto
  have h: "PhysicalResourceId ?ev = Some []" "reason empty_reason = Some []"
    by (simp_all add: empty_reason_def)
  from empty_string_same_as_absent[of SUCCESS ?ev empty_reason world0] m h
  show ?thesis by auto
qed

subsection \<open>Delivery\<close>

text \<open>
  Claim C5. \<open>submitResponse\<close> logs one line and then delivers through the retry wrapper:
  at most 5 attempts of the same request, with a pause of 1000 ms after each failed
  attempt and before the next. If the five attempts all fail, the error of the last one
  propagates out of \<open>submitResponse\<close>. If attempt number \<open>k + 1\<close> (with \<open>k < 5\<close>) is
  the first that succeeds, the call returns after exactly \<open>k + 1\<close> attempts and \<open>k\<close>
  pauses, and nothing more is attempted.
\<close>

theorem submitResponse_delivery:
  "(\<exists>k<5. emitted w (snd (submitResponse st ev options w))
        = submit_line st ev options # delivery k 1000 (submit_request st ev options))
   \<and> length (requests (emitted w (snd (submitResponse st ev options w)))) \<le> 5
   \<and> ((\<forall>i<5. transport w (sent w + i) \<noteq> None) \<longrightarrow>
        fst (submitResponse st ev options w) = Threw (the (transport w (sent w + 4)))
        \<and> emitted w (snd (submitResponse st ev options w))
            = submit_line st ev options # delivery 4 1000 (submit_request st ev options))
   \<and> (\<forall>k<5. (\<forall>i<k. transport w (sent w + i) \<noteq> None) \<and> transport w (sent w + k) = None \<longrightarrow>
        fst (submitResponse st ev options w) = Returned
        \<and> emitted w (snd (submitResponse st ev options w))
            = submit_line st ev options # delivery k 1000 (submit_request st ev options)
        \<and> length (requests (emitted w (snd (submitResponse st ev options w)))) = Suc k
        \<and> sleeps (emitted w (snd (submitResponse st ev options w))) = replicate k 1000)"
proof -
  from submitResponse_run[of st ev options w] obtain j where j: "j < 5"
    "submitResponse st ev options w =
      ((case transport w (sent w + j) of None \<Rightarrow> Returned | Some e \<Rightarrow> Threw e),
       w\<lparr>trace := trace w @ submit_line st ev options
                    # delivery j 1000 (submit_request st ev options),
         sent := sent w + Suc j\<rparr>)"
    "\<forall>i<j. transport w (sent w + i) \<noteq> None"
    "j < 4 \<longrightarrow> transport w (sent w + j) = None" by blast
  have em: "emitted w (snd (submitResponse st ev options w))
      = submit_line st ev options # delivery j 1000 (submit_request st ev options)"
    unfolding j(2) by (simp add: emitted_def)
  have res: "fst (submitResponse st ev options w)
      = (case transport w (sent w + j) of None \<Rightarrow> Returned | Some e \<Rightarrow> Threw e)"
    unfolding j(2) by simp
  have reqs: "requests (emitted w (snd (submitResponse st ev options w)))
      = replicate (Suc j) (submit_request st ev options)"
    unfolding em by (simp add: requests_delivery submit_line_def)
  have sl: "sleeps (emitted w (snd (submitResponse st ev options w))) = replicate j 1000"
    unfolding em by (simp add: sleeps_delivery submit_line_def)
  have all_fail: "j = 4" if "\<forall>i<5. transport w (sent w + i) \<noteq> None"
  proof (rule ccontr)
    assume "j \<noteq> 4"
    with j(1) have "j < 4" by simp
    with j(4) that show False by simp
  qed
  have first_ok: "j = k"
    if "k < 5" "\<forall>i<k. transport w (sent w + i) \<noteq> None" "transport w (sent w + k) = None" for k
  proof (rule ccontr)
    assume "j \<noteq> k"
    then consider "j < k" | "k < j" by linarith
    then show False
    proof cases
      case 1
      with that(1) have "j < 4" by simp
      with j(4) that(2) 1 show False by simp
    next
      case 2
      with j(3) that(3) show False by auto
    qed
  qed
  show ?thesis
  proof (intro conjI impI allI)
    show "\<exists>k<5. emitted w (snd (submitResponse st ev options w))
        = submit_line st ev options # delivery k 1000 (submit_request st ev options)"
      using em j(1) by blast
    show "length (requests (emitted w (snd (submitResponse st ev options w)))) \<le> 5"
      unfolding reqs using j(1) by simp
  next
    assume a: "\<forall>i<5. transport w (sent w + i) \<noteq> None"
    then have j4: "j = 4" by (rule all_fail)
    from a have "transport w (sent w + 4) \<noteq> None" by simp
    then show "fst (submitResponse st ev options w) = Threw (the (transport w (sent w + 4)))"
      unfolding res j4 by (auto split: option.splits)
    show "emitted w (snd (submitResponse st ev options w))
            = submit_line st ev options # delivery 4 1000 (submit_request st ev options)"
      using em j4 by simp
  next
    fix k assume "k < 5"
      and a: "(\<forall>i<k. transport w (sent w + i) \<noteq> None) \<and> transport w (sent w + k) = None"
    then have jk: "j = k" using first_ok by blast
    show "fst (submitResponse st ev options w) = Returned"
      unfolding res jk using a by simp
    show "emitted w (snd (submitResponse st ev options w))
            = submit_line st ev options # delivery k 1000 (submit_request st ev options)"
      using em jk by simp
    show "length (requests (emitted w (snd (submitResponse st ev options w)))) = Suc k"
      unfolding reqs jk by simp
    show "sleeps (emitted w (snd (submitResponse st ev options w))) = replicate k 1000"
      using sl jk by simp
  qed
qed

theorem submitResponse_delivery_witness:
  "fst (submitResponse FAILED scenario_event boom flaky_world) = Returned
   \<and> length (requests (emitted flaky_world (snd (submitResponse FAILED scenario_event boom flaky_world)))) = 5
   \<and> sleeps (emitted flaky_world (snd (submitResponse FAILED scenario_event boom flaky_world)))
       = [1000, 1000, 1000, 1000]
   \<and> fst (submitResponse FAILED scenario_event boom dead_world) = Threw net_error
   \<and> length (requests (emitted dead_world (snd (submitResponse FAILED scenario_event boom dead_world)))) = 5"
proof -
  have f: "(\<forall>i<4. transport flaky_world (sent flaky_world + i) \<noteq> None)
      \<and> transport flaky_world (sent flaky_world + 4) = None"
    by (simp add: flaky_world_def)
  have d: "\<forall>i<5. transport dead_world (sent dead_world + i) \<noteq> None"
    by (simp add: dead_world_def)
  have t: "the (transport dead_world (sent dead_world + 4)) = net_error"
    by (simp add: dead_world_def)
  have r: "replicate 4 (1000::nat) = [1000, 1000, 1000, 1000]"
    by (simp add: numeral_eq_Suc)
  note F = submitResponse_delivery[of flaky_world FAILED scenario_event boom,
      THEN conjunct2, THEN conjunct2, THEN conjunct2, rule_format, of 4, OF _ f]
  have 1: "fst (submitResponse FAILED scenario_event boom flaky_world) = Returned
    \<and> length (requests (emitted flaky_world (snd (submitResponse FAILED scenario_event boom flaky_world)))) = 5
    \<and> sleeps (emitted flaky_world (snd (submitResponse FAILED scenario_event boom flaky_world)))
       = replicate 4 1000"
    using F[THEN conjunct1] F[THEN conjunct2, THEN conjunct2, THEN conjunct1]
      F[THEN conjunct2, THEN conjunct2, THEN conjunct2] by simp
  note D = submitResponse_delivery[of dead_world FAILED scenario_event boom,
      THEN conjunct2, THEN conjunct2, THEN conjunct1, THEN mp, OF d]
  have 2: "fst (submitResponse FAILED scenario_event boom dead_world) = Threw net_error
    \<and> length (requests (emitted dead_world (snd (submitResponse FAILED scenario_event boom dead_world)))) = 5"
    using D[THEN conjunct1] t
    by (simp add: D[THEN conjunct2] requests_delivery submit_line_def)
  from 1 2 r show ?thesis by simp
qed

subsection \<open>The logged address\<close>

text \<open>One call of \<open>submitResponse\<close> emits exactly one log line.\<close>

lemma submitResponse_one_log_line:
  "\<exists>title payload. log_lines (emitted w (snd (submitResponse st ev options w)))
     = [(title, [LString (loggingSafeUrl (url_parse (ResponseURL ev))), LResponse payload])]"
proof -
  from submitResponse_emitted[of w st ev options] obtain k where
    "emitted w (snd (submitResponse st ev options w))
      = submit_line st ev options # delivery k 1000 (submit_request st ev options)" by blast
  then show ?thesis by (simp add: submit_line_def log_lines_delivery)
qed

text \<open>
  Claim C9, at the spec's scenario. For the callback \<open>http://x/y?t=1\<close> the parser gives
  the path \<open>/y\<close>, with its leading slash, and the template puts another slash before it:
  the one log line carries \<open>http://x//y?***\<close>. The query is redacted, but the path is
  not the path of the callback.
\<close>

theorem scenario_logged_url:
  "url_parse ''http://x/y?t=1''
     = \<lparr>protocol = Some ''http:'', hostname = Some ''x'', pathname = Some ''/y'',
        search = Some ''?t=1'', path = Some ''/y?t=1''\<rparr>
   \<and> log_lines (emitted world0 (snd (submitResponse FAILED scenario_event boom world0)))
     = [(''submit response to cloudformation'',
         [LString ''http://x//y?***'', LResponse (response_json FAILED scenario_event boom)])]"
  by code_simp

subsection \<open>The wrapped handler\<close>

text \<open>The inner handler is called unless the event is the DELETE after a failed CREATE.\<close>

lemma inner_safeHandler:
  "inner (safeHandler block ev w) =
     (if RequestType ev = ''Delete''
         \<and> PhysicalResourceId ev = Some CREATE_FAILED_PHYSICAL_ID_MARKER
      then None else Some (block ev w))"
  by (auto simp: safeHandler_def Let_def split: prod.splits outcome.splits sum.splits)

lemma safeHandler_failed:
  assumes "inner (safeHandler block ev w) = Some (Threw e, ev1, w1)"
    and "\<not> instanceof_Retry e"
    and "\<not> nullish e"
  shows "safeHandler block ev w =
     \<lparr>result = fst (submitResponse FAILED (fst (mark_failed ev1 w1))
                 (failure_options e w1) (snd (mark_failed ev1 w1))),
      event_after = fst (mark_failed ev1 w1),
      world_after = snd (submitResponse FAILED (fst (mark_failed ev1 w1))
                 (failure_options e w1) (snd (mark_failed ev1 w1))),
      inner = Some (Threw e, ev1, w1)\<rparr>"
proof -
  from assms(1) have g: "\<not> (RequestType ev = ''Delete''
         \<and> PhysicalResourceId ev = Some CREATE_FAILED_PHYSICAL_ID_MARKER)"
    and b: "block ev w = (Threw e, ev1, w1)"
    by (simp_all add: inner_safeHandler split: if_splits)
  obtain ev2 w2 where m: "mark_failed ev1 w1 = (ev2, w2)"
    by (cases "mark_failed ev1 w1")
  then have i: "includeStackTraces w2 = includeStackTraces w1"
    by (auto simp: mark_failed_def log_def split: if_splits)
  from assms(3) obtain v where v: "e = Thrown v" by (cases e) simp_all
  show ?thesis
    unfolding safeHandler_def if_not_P[OF g] b
    using assms(2) by (simp add: failure_options_def m i v case_prod_beta)
qed

text \<open>
  A failure with \<open>undefined\<close> or \<open>null\<close>: the event is marked or the malformed event
  logged as for any failure, then the read of \<open>e.stack\<close> or \<open>e.message\<close> raises, and
  nothing is submitted.
\<close>

lemma safeHandler_nullish:
  assumes "inner (safeHandler block ev w) = Some (Threw e, ev1, w1)"
    and "nullish e"
  shows "safeHandler block ev w =
     \<lparr>result = Threw (cannot_read (if e = Null then ''null'' else ''undefined'')
                 (if includeStackTraces w1 then ''stack'' else ''message'')),
      event_after = fst (mark_failed ev1 w1),
      world_after = snd (mark_failed ev1 w1),
      inner = Some (Threw e, ev1, w1)\<rparr>"
proof -
  from assms(1) have g: "\<not> (RequestType ev = ''Delete''
         \<and> PhysicalResourceId ev = Some CREATE_FAILED_PHYSICAL_ID_MARKER)"
    and b: "block ev w = (Threw e, ev1, w1)"
    by (simp_all add: inner_safeHandler split: if_splits)
  obtain ev2 w2 where m: "mark_failed ev1 w1 = (ev2, w2)"
    by (cases "mark_failed ev1 w1")
  then have i: "includeStackTraces w2 = includeStackTraces w1"
    by (auto simp: mark_failed_def log_def split: if_splits)
  from assms(2) consider "e = Undefined" | "e = Null" by (cases e) simp_all
  then show ?thesis
    unfolding safeHandler_def if_not_P[OF g] b
    by cases (simp_all add: m i)
qed

lemma trace_submitResponse:
  "\<exists>k<5. trace (snd (submitResponse st ev options w)) = trace w @ submit_line st ev options # delivery k 1000 (submit_request st ev options)
     \<and> fst (submitResponse st ev options w) = (case transport w (sent w + k) of None \<Rightarrow> Returned | Some e \<Rightarrow> Threw e)"
proof -
  from submitResponse_run[of st ev options w] obtain k where k: "k < 5"
    "submitResponse st ev options w =
      ((case transport w (sent w + k) of None \<Rightarrow> Returned | Some e \<Rightarrow> Threw e),
       w\<lparr>trace := trace w @ submit_line st ev options
                    # delivery k 1000 (submit_request st ev options),
         sent := sent w + Suc k\<rparr>)" by blast
  show ?thesis by (intro exI[of _ k]) (simp add: k)
qed

lemma safeHandler_ignored:
  assumes "RequestType ev = ''Delete''"
    and "PhysicalResourceId ev = Some CREATE_FAILED_PHYSICAL_ID_MARKER"
  shows "safeHandler block ev w =
     \<lparr>result = fst (submitResponse SUCCESS ev no_options (w\<lparr>trace := trace w @ [ignoring_line]\<rparr>)),
      event_after = ev,
      world_after = snd (submitResponse SUCCESS ev no_options (w\<lparr>trace := trace w @ [ignoring_line]\<rparr>)),
      inner = None\<rparr>"
  using assms by (simp add: safeHandler_def log_def ignoring_line_def case_prod_beta Let_def)

lemma report_after:
  assumes "trace w2 = trace w1 @ pre" and "transport w2 = transport w1" and "sent w2 = sent w1"
  shows "\<exists>k<5. emitted w1 (snd (submitResponse st ev options w2))
           = pre @ submit_line st ev options # delivery k 1000 (submit_request st ev options)
         \<and> fst (submitResponse st ev options w2)
           = (case transport w1 (sent w1 + k) of None \<Rightarrow> Returned | Some x \<Rightarrow> Threw x)"
proof -
  from trace_submitResponse[of st ev options w2] obtain k where k: "k < 5"
    "trace (snd (submitResponse st ev options w2))
       = trace w2 @ submit_line st ev options # delivery k 1000 (submit_request st ev options)"
    "fst (submitResponse st ev options w2)
       = (case transport w2 (sent w2 + k) of None \<Rightarrow> Returned | Some e \<Rightarrow> Threw e)" by blast
  show ?thesis
    by (intro exI[of _ k]) (simp add: k emitted_def assms)
qed

lemma safeHandler_reports_failure:
  assumes "inner (safeHandler block ev w) = Some (Threw e, ev1, w1)"
    and "\<not> instanceof_Retry e"
    and "\<not> nullish e"
    and "mark_failed ev1 w1 = (ev2, w1\<lparr>trace := trace w1 @ pre\<rparr>)"
  shows "event_after (safeHandler block ev w) = ev2
       \<and> (\<exists>k<5. emitted w1 (world_after (safeHandler block ev w))
             = pre @ submit_line FAILED ev2 (failure_options e w1)
                     # delivery k 1000 (submit_request FAILED ev2 (failure_options e w1))
           \<and> result (safeHandler block ev w)
             = (case transport w1 (sent w1 + k) of None \<Rightarrow> Returned | Some x \<Rightarrow> Threw x))"
proof -
  let ?w2 = "w1\<lparr>trace := trace w1 @ pre\<rparr>"
  note s = safeHandler_failed[OF assms(1,2,3), unfolded assms(4) fst_conv snd_conv]
  have ea: "event_after (safeHandler block ev w) = ev2"
    and wa: "world_after (safeHandler block ev w)
      = snd (submitResponse FAILED ev2 (failure_options e w1) ?w2)"
    and re: "result (safeHandler block ev w)
      = fst (submitResponse FAILED ev2 (failure_options e w1) ?w2)"
    by (simp_all add: s)
  from report_after[of ?w2 w1 pre FAILED ev2 "failure_options e w1"]
  show ?thesis unfolding ea wa re by simp
qed

lemma failure_payload:
  "resp_Status (req_body (submit_request FAILED ev options)) = FAILED"
  "resp_PhysicalResourceId (req_body (submit_request st ev options))
     = or_else (PhysicalResourceId ev) MISSING_PHYSICAL_ID_MARKER"
  by (simp_all add: submit_request_def put_request_def response_json_def JSON_response_def)

text \<open>
  Claim C1. For a \<open>Delete\<close> event whose physical id is the create-failed marker, the
  wrapped handler does not call the inner handler and leaves the event as it is. It logs
  that it ignores the event and submits exactly one response, with status \<open>SUCCESS\<close>: one
  log line of the submission and one delivery, every request of which carries the
  \<open>SUCCESS\<close> payload of this event. The call ends as the delivery ends.
\<close>

theorem delete_after_failed_create_ignored:
  assumes "RequestType ev = ''Delete''"
    and "PhysicalResourceId ev = Some CREATE_FAILED_PHYSICAL_ID_MARKER"
  shows "inner (safeHandler block ev w) = None
       \<and> event_after (safeHandler block ev w) = ev
       \<and> (\<exists>k<5. emitted w (world_after (safeHandler block ev w))
             = ignoring_line # submit_line SUCCESS ev no_options
               # delivery k 1000 (submit_request SUCCESS ev no_options)
           \<and> result (safeHandler block ev w)
             = (case transport w (sent w + k) of None \<Rightarrow> Returned | Some x \<Rightarrow> Threw x))
       \<and> log_lines (emitted w (world_after (safeHandler block ev w)))
           = [(''ignoring DELETE event caused by a failed CREATE event'', []),
              (''submit response to cloudformation'',
               [LString (loggingSafeUrl (url_parse (ResponseURL ev))),
                LResponse (response_json SUCCESS ev no_options)])]
       \<and> set (requests (emitted w (world_after (safeHandler block ev w))))
           = {submit_request SUCCESS ev no_options}
       \<and> resp_Status (req_body (submit_request SUCCESS ev no_options)) = SUCCESS"
proof -
  let ?w1 = "w\<lparr>trace := trace w @ [ignoring_line]\<rparr>"
  note s = safeHandler_ignored[OF assms, of block w]
  have wa: "world_after (safeHandler block ev w) = snd (submitResponse SUCCESS ev no_options ?w1)"
    and re: "result (safeHandler block ev w) = fst (submitResponse SUCCESS ev no_options ?w1)"
    and ea: "event_after (safeHandler block ev w) = ev"
    and inn: "inner (safeHandler block ev w) = None"
    by (simp_all add: s)
  from report_after[of ?w1 w "[ignoring_line]" SUCCESS ev no_options]
  obtain k where k: "k < 5"
    "emitted w (world_after (safeHandler block ev w))
       = ignoring_line # submit_line SUCCESS ev no_options
         # delivery k 1000 (submit_request SUCCESS ev no_options)"
    "result (safeHandler block ev w)
       = (case transport w (sent w + k) of None \<Rightarrow> Returned | Some x \<Rightarrow> Threw x)"
    unfolding wa re by auto
  have ll: "log_lines (emitted w (world_after (safeHandler block ev w)))
           = [(''ignoring DELETE event caused by a failed CREATE event'', []),
              (''submit response to cloudformation'',
               [LString (loggingSafeUrl (url_parse (ResponseURL ev))),
                LResponse (response_json SUCCESS ev no_options)])]"
    unfolding k(2)
    by (simp add: ignoring_line_def submit_line_def no_options_def log_lines_delivery)
  have rq: "set (requests (emitted w (world_after (safeHandler block ev w))))
           = {submit_request SUCCESS ev no_options}"
    unfolding k(2)
    by (auto simp add: ignoring_line_def submit_line_def requests_delivery)
  have st: "resp_Status (req_body (submit_request SUCCESS ev no_options)) = SUCCESS"
    by (simp add: submit_request_def put_request_def response_json_def JSON_response_def)
  from inn ea k ll rq st show ?thesis by blast
qed

theorem delete_after_failed_create_ignored_witness:
  "RequestType delete_after_failed_create = ''Delete''
   \<and> PhysicalResourceId delete_after_failed_create = Some CREATE_FAILED_PHYSICAL_ID_MARKER
   \<and> inner (safeHandler failing_block delete_after_failed_create world0) = None
   \<and> result (safeHandler failing_block delete_after_failed_create world0) = Returned
   \<and> map (resp_Status \<circ> req_body)
       (requests (emitted world0
          (world_after (safeHandler failing_block delete_after_failed_create world0))))
     = [SUCCESS]"
proof -
  have h: "RequestType delete_after_failed_create = ''Delete''"
    "PhysicalResourceId delete_after_failed_create = Some CREATE_FAILED_PHYSICAL_ID_MARKER"
    by (simp_all add: delete_after_failed_create_def scenario_event_def)
  note t = delete_after_failed_create_ignored[OF h, of failing_block world0]
  have r: "result (safeHandler failing_block delete_after_failed_create world0) = Returned
    \<and> map (resp_Status \<circ> req_body)
       (requests (emitted world0
          (world_after (safeHandler failing_block delete_after_failed_create world0))))
     = [SUCCESS]"
    by code_simp
  from h t[THEN conjunct1] r show ?thesis by blast
qed

text \<open>
  Claim C3. When the call of the inner handler fails with a value that is an instance of
  \<open>Retry\<close>, the wrapped handler throws that same value, adds one log line to what the
  inner handler left, and submits nothing: no request is sent and no submission is
  logged.
\<close>

theorem retry_rethrown:
  assumes "inner (safeHandler block ev w) = Some (Threw e, ev1, w1)"
    and "instanceof_Retry e"
  shows "result (safeHandler block ev w) = Threw e
       \<and> event_after (safeHandler block ev w) = ev1
       \<and> emitted w1 (world_after (safeHandler block ev w))
           = [ConsoleLog ''retry requested by handler'' []]
       \<and> requests (emitted w1 (world_after (safeHandler block ev w))) = []
       \<and> sent (world_after (safeHandler block ev w)) = sent w1"
proof -
  from assms(1) have g: "\<not> (RequestType ev = ''Delete''
         \<and> PhysicalResourceId ev = Some CREATE_FAILED_PHYSICAL_ID_MARKER)"
    and b: "block ev w = (Threw e, ev1, w1)"
    by (simp_all add: inner_safeHandler split: if_splits)
  have s: "safeHandler block ev w =
      \<lparr>result = Threw e, event_after = ev1,
       world_after = log ''retry requested by handler'' [] w1,
       inner = Some (Threw e, ev1, w1)\<rparr>"
    unfolding safeHandler_def if_not_P[OF g] b using assms(2) by simp
  show ?thesis by (simp add: s log_def emitted_def)
qed

theorem retry_rethrown_witness:
  "inner (safeHandler retrying_block scenario_event world0)
     = Some (Threw retry_signal, scenario_event, world0)
   \<and> instanceof_Retry retry_signal
   \<and> result (safeHandler retrying_block scenario_event world0) = Threw retry_signal
   \<and> requests (emitted world0 (world_after (safeHandler retrying_block scenario_event world0)))
     = []"
proof -
  have h1: "inner (safeHandler retrying_block scenario_event world0)
     = Some (Threw retry_signal, scenario_event, world0)"
    by (simp add: inner_safeHandler retrying_block_def scenario_event_def)
  have h2: "instanceof_Retry retry_signal" by (simp add: retry_signal_def)
  note t = retry_rethrown[OF h1 h2]
  from h1 h2 t show ?thesis by blast
qed

text \<open>
  Claim C2, as it holds of the code. The inner handler shares the event object with the
  wrapper, and the wrapper looks at the event when the failure arrives. When the call of
  the inner handler fails with a value that is no \<open>Retry\<close> and is neither \<open>undefined\<close>
  nor \<open>null\<close>, and the event then has
  \<open>RequestType = Create\<close> and no physical id, the wrapped handler assigns the
  create-failed marker to the event's \<open>PhysicalResourceId\<close> and submits one \<open>FAILED\<close>
  response, which carries the marker. For an inner handler that does not assign to the
  event, the event at the failure is the event that came in.
\<close>

theorem failed_create_marked:
  assumes "inner (safeHandler block ev w) = Some (Threw e, ev1, w1)"
    and "\<not> instanceof_Retry e"
    and "\<not> nullish e"
    and "RequestType ev1 = ''Create''"
    and "\<not> truthy (PhysicalResourceId ev1)"
  shows "PhysicalResourceId (event_after (safeHandler block ev w))
           = Some CREATE_FAILED_PHYSICAL_ID_MARKER
       \<and> event_after (safeHandler block ev w)
           = ev1\<lparr>PhysicalResourceId := Some CREATE_FAILED_PHYSICAL_ID_MARKER\<rparr>
       \<and> (\<exists>k<5. emitted w1 (world_after (safeHandler block ev w))
             = create_failed_line
               # submit_line FAILED (event_after (safeHandler block ev w)) (failure_options e w1)
               # delivery k 1000
                   (submit_request FAILED (event_after (safeHandler block ev w))
                      (failure_options e w1))
           \<and> result (safeHandler block ev w)
             = (case transport w1 (sent w1 + k) of None \<Rightarrow> Returned | Some x \<Rightarrow> Threw x))
       \<and> resp_Status (req_body (submit_request FAILED (event_after (safeHandler block ev w))
            (failure_options e w1))) = FAILED
       \<and> resp_PhysicalResourceId (req_body (submit_request FAILED
            (event_after (safeHandler block ev w)) (failure_options e w1)))
           = CREATE_FAILED_PHYSICAL_ID_MARKER"
proof -
  let ?ev2 = "ev1\<lparr>PhysicalResourceId := Some CREATE_FAILED_PHYSICAL_ID_MARKER\<rparr>"
  have m: "mark_failed ev1 w1 = (?ev2, w1\<lparr>trace := trace w1 @ [create_failed_line]\<rparr>)"
    using assms(4,5) by (simp add: mark_failed_def log_def create_failed_line_def)
  note r = safeHandler_reports_failure[OF assms(1,2,3) m]
  have ea: "event_after (safeHandler block ev w) = ?ev2" using r by blast
  have marker: "or_else (PhysicalResourceId ?ev2) MISSING_PHYSICAL_ID_MARKER
      = CREATE_FAILED_PHYSICAL_ID_MARKER"
    by (simp add: or_else_def CREATE_FAILED_PHYSICAL_ID_MARKER_def)
  show ?thesis
    unfolding ea using r[THEN conjunct2] marker by (simp add: failure_payload)
qed

theorem failed_create_marked_witness:
  "inner (safeHandler failing_block scenario_event world0)
     = Some (Threw app_error, scenario_event, world0)
   \<and> \<not> instanceof_Retry app_error
   \<and> \<not> nullish app_error
   \<and> RequestType scenario_event = ''Create''
   \<and> \<not> truthy (PhysicalResourceId scenario_event)
   \<and> PhysicalResourceId (event_after (safeHandler failing_block scenario_event world0))
       = Some CREATE_FAILED_PHYSICAL_ID_MARKER
   \<and> map (resp_Status \<circ> req_body)
       (requests (emitted world0 (world_after (safeHandler failing_block scenario_event world0))))
     = [FAILED]"
proof -
  have h1: "inner (safeHandler failing_block scenario_event world0)
     = Some (Threw app_error, scenario_event, world0)"
    by (simp add: inner_safeHandler failing_block_def scenario_event_def)
  have h2: "\<not> instanceof_Retry app_error" by (simp add: app_error_def)
  have h5: "\<not> nullish app_error" by (simp add: app_error_def)
  have h3: "RequestType scenario_event = ''Create''" by (simp add: scenario_event_def)
  have h4: "\<not> truthy (PhysicalResourceId scenario_event)" by (simp add: scenario_event_def)
  note t = failed_create_marked[OF h1 h2 h5 h3 h4]
  have r: "map (resp_Status \<circ> req_body)
       (requests (emitted world0 (world_after (safeHandler failing_block scenario_event world0))))
     = [FAILED]"
    by code_simp
  from h1 h2 h5 h3 h4 t[THEN conjunct1] r show ?thesis by blast
qed

text \<open>
  Claim C2 as stated fails when the inner handler records a physical id on the event and
  then fails: the event came in as a \<open>Create\<close> without physical id, and after the call its
  physical id is the one the inner handler recorded, not the marker.
\<close>

theorem handler_assigned_id_counterexample:
  "RequestType scenario_event = ''Create''
   \<and> PhysicalResourceId scenario_event = None
   \<and> fst (assigning_block scenario_event world0) = Threw app_error
   \<and> \<not> instanceof_Retry app_error
   \<and> PhysicalResourceId (event_after (safeHandler assigning_block scenario_event world0))
       = Some ''res-1''
   \<and> PhysicalResourceId (event_after (safeHandler assigning_block scenario_event world0))
       \<noteq> Some CREATE_FAILED_PHYSICAL_ID_MARKER"
  by code_simp

text \<open>
  Claim C7, as it holds of the code. When the call of the inner handler fails with a
  value that is no \<open>Retry\<close> and is neither \<open>undefined\<close> nor \<open>null\<close>, and the event then
  has a \<open>RequestType\<close> other than
  \<open>Create\<close> and no physical id, the wrapped handler logs the malformed-event line,
  leaves the event as it is (no marker is assigned), and goes on to submit one \<open>FAILED\<close>
  response whose \<open>PhysicalResourceId\<close> is the missing-id marker. The call ends as the
  delivery ends: nothing is thrown by the branch itself.
\<close>

theorem malformed_event_reported:
  assumes "inner (safeHandler block ev w) = Some (Threw e, ev1, w1)"
    and "\<not> instanceof_Retry e"
    and "\<not> nullish e"
    and "RequestType ev1 \<noteq> ''Create''"
    and "\<not> truthy (PhysicalResourceId ev1)"
  shows "event_after (safeHandler block ev w) = ev1
       \<and> (\<exists>k<5. emitted w1 (world_after (safeHandler block ev w))
             = malformed_line ev1
               # submit_line FAILED ev1 (failure_options e w1)
               # delivery k 1000 (submit_request FAILED ev1 (failure_options e w1))
           \<and> result (safeHandler block ev w)
             = (case transport w1 (sent w1 + k) of None \<Rightarrow> Returned | Some x \<Rightarrow> Threw x))
       \<and> resp_Status (req_body (submit_request FAILED ev1 (failure_options e w1))) = FAILED
       \<and> resp_PhysicalResourceId (req_body (submit_request FAILED ev1 (failure_options e w1)))
           = MISSING_PHYSICAL_ID_MARKER"
proof -
  have m: "mark_failed ev1 w1 = (ev1, w1\<lparr>trace := trace w1 @ [malformed_line ev1]\<rparr>)"
    using assms(4,5) by (simp add: mark_failed_def log_def malformed_line_def)
  note r = safeHandler_reports_failure[OF assms(1,2,3) m]
  have missing: "or_else (PhysicalResourceId ev1) MISSING_PHYSICAL_ID_MARKER
      = MISSING_PHYSICAL_ID_MARKER"
    using assms(5) by (simp add: or_else_def)
  show ?thesis
    using r missing by (simp add: failure_payload)
qed

theorem malformed_event_reported_witness:
  "inner (safeHandler failing_block update_without_id world0)
     = Some (Threw app_error, update_without_id, world0)
   \<and> \<not> instanceof_Retry app_error
   \<and> \<not> nullish app_error
   \<and> RequestType update_without_id \<noteq> ''Create''
   \<and> \<not> truthy (PhysicalResourceId update_without_id)
   \<and> event_after (safeHandler failing_block update_without_id world0) = update_without_id
   \<and> map fst (log_lines (emitted world0
        (world_after (safeHandler failing_block update_without_id world0))))
     = [malformed_title, ''submit response to cloudformation'']
   \<and> map (resp_PhysicalResourceId \<circ> req_body)
       (requests (emitted world0
          (world_after (safeHandler failing_block update_without_id world0))))
     = [MISSING_PHYSICAL_ID_MARKER]"
proof -
  have h1: "inner (safeHandler failing_block update_without_id world0)
     = Some (Threw app_error, update_without_id, world0)"
    by (simp add: inner_safeHandler failing_block_def update_without_id_def scenario_event_def)
  have h2: "\<not> instanceof_Retry app_error" by (simp add: app_error_def)
  have h5: "\<not> nullish app_error" by (simp add: app_error_def)
  have h3: "RequestType update_without_id \<noteq> ''Create''"
    by (simp add: update_without_id_def)
  have h4: "\<not> truthy (PhysicalResourceId update_without_id)"
    by (simp add: update_without_id_def scenario_event_def)
  note t = malformed_event_reported[OF h1 h2 h5 h3 h4]
  have r: "map fst (log_lines (emitted world0
        (world_after (safeHandler failing_block update_without_id world0))))
     = [malformed_title, ''submit response to cloudformation'']
   \<and> map (resp_PhysicalResourceId \<circ> req_body)
       (requests (emitted world0
          (world_after (safeHandler failing_block update_without_id world0))))
     = [MISSING_PHYSICAL_ID_MARKER]"
    by code_simp
  from h1 h2 h5 h3 h4 t[THEN conjunct1] r show ?thesis by blast
qed

text \<open>
  Claim C7 as stated fails when the inner handler records a physical id on the event and
  then fails: the event came in as an \<open>Update\<close> without physical id, no malformed-event
  line is logged, and the \<open>FAILED\<close> response carries the recorded id, not the missing-id
  marker.
\<close>

theorem update_assigned_id_counterexample:
  "RequestType update_without_id = ''Update''
   \<and> PhysicalResourceId update_without_id = None
   \<and> fst (assigning_block update_without_id world0) = Threw app_error
   \<and> \<not> instanceof_Retry app_error
   \<and> map fst (log_lines (emitted world0
        (world_after (safeHandler assigning_block update_without_id world0))))
     = [''submit response to cloudformation'']
   \<and> map (resp_PhysicalResourceId \<circ> req_body)
       (requests (emitted world0
          (world_after (safeHandler assigning_block update_without_id world0))))
     = [''res-1'']"
  by code_simp

text \<open>
  Claim C8, as it holds of the code. When the call of the inner handler fails with a
  value that is no \<open>Retry\<close> and is neither \<open>undefined\<close> nor \<open>null\<close>, and the event then
  is a \<open>Create\<close> with a physical id, the
  wrapped handler leaves the event as it is (no marker is assigned) and submits one
  \<open>FAILED\<close> response, which carries that id. The only line it logs is the line of the
  submission: there is no malformed-event warning.
\<close>

theorem create_with_known_id_reported:
  assumes "inner (safeHandler block ev w) = Some (Threw e, ev1, w1)"
    and "\<not> instanceof_Retry e"
    and "\<not> nullish e"
    and "RequestType ev1 = ''Create''"
    and "truthy (PhysicalResourceId ev1)"
  shows "event_after (safeHandler block ev w) = ev1
       \<and> (\<exists>k<5. emitted w1 (world_after (safeHandler block ev w))
             = submit_line FAILED ev1 (failure_options e w1)
               # delivery k 1000 (submit_request FAILED ev1 (failure_options e w1))
           \<and> result (safeHandler block ev w)
             = (case transport w1 (sent w1 + k) of None \<Rightarrow> Returned | Some x \<Rightarrow> Threw x))
       \<and> log_lines (emitted w1 (world_after (safeHandler block ev w)))
           = [(''submit response to cloudformation'',
               [LString (loggingSafeUrl (url_parse (ResponseURL ev1))),
                LResponse (response_json FAILED ev1 (failure_options e w1))])]
       \<and> resp_Status (req_body (submit_request FAILED ev1 (failure_options e w1))) = FAILED
       \<and> Some (resp_PhysicalResourceId
                 (req_body (submit_request FAILED ev1 (failure_options e w1))))
           = PhysicalResourceId ev1"
proof -
  have m: "mark_failed ev1 w1 = (ev1, w1\<lparr>trace := trace w1 @ []\<rparr>)"
    using assms(5) by (simp add: mark_failed_def)
  note r = safeHandler_reports_failure[OF assms(1,2,3) m]
  from r obtain k where k: "k < 5"
    "emitted w1 (world_after (safeHandler block ev w))
       = submit_line FAILED ev1 (failure_options e w1)
         # delivery k 1000 (submit_request FAILED ev1 (failure_options e w1))"
    by auto
  have ll: "log_lines (emitted w1 (world_after (safeHandler block ev w)))
           = [(''submit response to cloudformation'',
               [LString (loggingSafeUrl (url_parse (ResponseURL ev1))),
                LResponse (response_json FAILED ev1 (failure_options e w1))])]"
    unfolding k(2) by (simp add: submit_line_def failure_options_def log_lines_delivery)
  have known: "Some (or_else (PhysicalResourceId ev1) MISSING_PHYSICAL_ID_MARKER)
      = PhysicalResourceId ev1"
    using assms(5) by (cases "PhysicalResourceId ev1") (simp_all add: or_else_def)
  show ?thesis
    using r ll known by (simp add: failure_payload)
qed

theorem create_with_known_id_reported_witness:
  "inner (safeHandler failing_block create_with_id world0)
     = Some (Threw app_error, create_with_id, world0)
   \<and> \<not> instanceof_Retry app_error
   \<and> \<not> nullish app_error
   \<and> RequestType create_with_id = ''Create''
   \<and> truthy (PhysicalResourceId create_with_id)
   \<and> event_after (safeHandler failing_block create_with_id world0) = create_with_id
   \<and> map (resp_PhysicalResourceId \<circ> req_body)
       (requests (emitted world0 (world_after (safeHandler failing_block create_with_id world0))))
     = [''abc'']"
proof -
  have h1: "inner (safeHandler failing_block create_with_id world0)
     = Some (Threw app_error, create_with_id, world0)"
    by (simp add: inner_safeHandler failing_block_def create_with_id_def scenario_event_def)
  have h2: "\<not> instanceof_Retry app_error" by (simp add: app_error_def)
  have h5: "\<not> nullish app_error" by (simp add: app_error_def)
  have h3: "RequestType create_with_id = ''Create''"
    by (simp add: create_with_id_def scenario_event_def)
  have h4: "truthy (PhysicalResourceId create_with_id)"
    by (simp add: create_with_id_def)
  note t = create_with_known_id_reported[OF h1 h2 h5 h3 h4]
  have r: "map (resp_PhysicalResourceId \<circ> req_body)
       (requests (emitted world0 (world_after (safeHandler failing_block create_with_id world0))))
     = [''abc'']"
    by code_simp
  from h1 h2 h5 h3 h4 t[THEN conjunct1] r show ?thesis by blast
qed

text \<open>
  Claim C8 as stated fails: for a \<open>Create\<close> event that carries the physical id \<open>abc\<close>
  and an inner handler that fails, the log holds the line of the submission and nothing
  else.
\<close>

theorem create_with_known_id_counterexample:
  "RequestType create_with_id = ''Create''
   \<and> PhysicalResourceId create_with_id = Some ''abc''
   \<and> fst (failing_block create_with_id world0) = Threw app_error
   \<and> \<not> instanceof_Retry app_error
   \<and> log_lines (emitted world0 (world_after (safeHandler failing_block create_with_id world0)))
     = [(''submit response to cloudformation'',
         [LString ''http://x//y?***'',
          LResponse (response_json FAILED create_with_id
             \<lparr>reason = Some ''Error: boom at handler'', noEcho = None\<rparr>)])]"
  by code_simp

subsection \<open>Redaction\<close>

text \<open>The loop writes to the one data object it is given, key after key.\<close>

lemma fold_assign_key:
  "d < length h \<Longrightarrow> h ! d = DataObject m \<Longrightarrow>
   fold (\<lambda>key. assign_key d key v) ks h
     = h[d := DataObject (fold (\<lambda>key d'. AList.update key v d') ks m)]"
proof (induction ks arbitrary: h m)
  case Nil
  then have "h[d := DataObject m] = h" by (metis list_update_id)
  then show ?case by simp
next
  case (Cons k ks)
  let ?h = "h[d := DataObject (AList.update k v m)]"
  have a: "assign_key d k v h = ?h" using Cons.prems by (simp add: assign_key_def)
  have "fold (\<lambda>key. assign_key d key v) ks ?h
      = ?h[d := DataObject (fold (\<lambda>key d'. AList.update key v d') ks (AList.update k v m))]"
    using Cons.prems by (intro Cons.IH) simp_all
  then show ?case by (simp add: a)
qed

lemma keys_update_present:
  "k \<in> fst ` set m \<Longrightarrow> map fst (AList.update k v m) = map fst m"
  by (simp add: update_keys)

lemma keys_redact_keys:
  "set ks \<subseteq> fst ` set m \<Longrightarrow> map fst (redact_keys ks m) = map fst m"
proof (induction ks arbitrary: m)
  case Nil
  then show ?case by (simp add: redact_keys_def)
next
  case (Cons k ks)
  have k: "map fst (AList.update k REDACTED m) = map fst m"
    using Cons.prems by (simp add: keys_update_present)
  then have "fst ` set (AList.update k REDACTED m) = fst ` set m"
    by (metis list.set_map)
  with Cons.prems have "set ks \<subseteq> fst ` set (AList.update k REDACTED m)" by simp
  from Cons.IH[OF this] k show ?case by (simp add: redact_keys_def)
qed

lemma map_of_redact_keys:
  "map_of (redact_keys ks m) x = (if x \<in> set ks then Some REDACTED else map_of m x)"
proof (induction ks arbitrary: m)
  case Nil
  then show ?case by (simp add: redact_keys_def)
next
  case (Cons k ks)
  have "map_of (redact_keys ks (AList.update k REDACTED m)) x
      = (if x \<in> set ks then Some REDACTED else map_of (AList.update k REDACTED m) x)"
    by (rule Cons.IH)
  then show ?case by (simp add: redact_keys_def update_conv')
qed

lemma redact_all_keys:
  "map fst (redact_keys (map fst m) m) = map fst m"
  "dom (map_of (redact_keys (map fst m) m)) = dom (map_of m)"
  "k \<in> dom (map_of (redact_keys (map fst m) m)) \<Longrightarrow>
     map_of (redact_keys (map fst m) m) k = Some REDACTED"
proof -
  show keys: "map fst (redact_keys (map fst m) m) = map fst m"
    by (rule keys_redact_keys) simp
  then show "dom (map_of (redact_keys (map fst m) m)) = dom (map_of m)"
    by (metis dom_map_of_conv_image_fst list.set_map)
  then show "map_of (redact_keys (map fst m) m) k = Some REDACTED"
    if "k \<in> dom (map_of (redact_keys (map fst m) m))"
    using that by (simp add: map_of_redact_keys dom_map_of_conv_image_fst)
qed

text \<open>The value of the returned object, and the keys that the JSON copy keeps.\<close>

lemma redactedPayload_no_data:
  "resp_Data v = None \<Longrightarrow> redactedPayload v = v"
  by (cases v) (simp add: redactedPayload_def JSON_response_def)

lemma redactedPayload_data:
  "resp_Data v = Some d \<Longrightarrow>
   redactedPayload v
     = v\<lparr>resp_Data := Some (redact_keys (map fst (JSON_object d)) (JSON_object d))\<rparr>"
  by (simp add: redactedPayload_def JSON_response_def)

lemma keys_JSON_object:
  "map fst (JSON_object d) = map fst (filter (\<lambda>kv. snd kv \<noteq> JUndefined) d)"
  by (simp add: JSON_object_def comp_def)

lemma JSON_object_defined:
  "JUndefined \<notin> snd ` set d \<Longrightarrow> map fst (JSON_object d) = map fst d"
proof -
  assume "JUndefined \<notin> snd ` set d"
  then have "filter (\<lambda>kv. snd kv \<noteq> JUndefined) d = d"
    by (induction d) auto
  then show ?thesis by (simp add: keys_JSON_object)
qed

text \<open>
  Claim C6, as it holds of the code. For a response object \<open>payload\<close> in the store,
  \<open>redactDataFromPayload\<close> returns a new object and leaves every object of the store as
  it was; in particular the argument reads field for field as before. The new object
  has the fields of the argument, except that, when the argument has data, its data
  object is a new one: its keys are the keys of the argument's data whose value is not
  \<open>undefined\<close>, in the same order, and every one of them is mapped to the masking token.
  When no value of the data is \<open>undefined\<close>, the keys are exactly those of the argument.
\<close>

theorem redactDataFromPayload_copy:
  assumes "read_response h payload = Some v"
  shows "\<exists>r h'. redactDataFromPayload payload h = Some (r, h')
           \<and> take (length h) h' = h
           \<and> read_response h' payload = Some v
           \<and> length h \<le> r
           \<and> read_response h' r = Some (redactedPayload v)
           \<and> redactedPayload v = v\<lparr>resp_Data := resp_Data (redactedPayload v)\<rparr>
           \<and> (resp_Data v = None \<longrightarrow> resp_Data (redactedPayload v) = None)
           \<and> (\<forall>d. resp_Data v = Some d \<longrightarrow>
                 (\<exists>d'. resp_Data (redactedPayload v) = Some d'
                    \<and> map fst d' = map fst (filter (\<lambda>kv. snd kv \<noteq> JUndefined) d)
                    \<and> (\<forall>k \<in> dom (map_of d'). map_of d' k = Some REDACTED)
                    \<and> (JUndefined \<notin> snd ` set d \<longrightarrow> map fst d' = map fst d)))"
proof -
  from assms obtain r0 where p: "payload < length h" "h ! payload = ResponseObject r0"
    by (auto simp: read_response_def split: if_splits object.splits)
  have js: "JSON_stringify h payload = Some (JSON_response v)"
    by (simp add: JSON_stringify_def assms)
  have val: "redactedPayload v = v\<lparr>resp_Data := resp_Data (redactedPayload v)\<rparr>"
    by (cases "resp_Data v") (simp_all add: redactedPayload_no_data redactedPayload_data)
  have none: "resp_Data v = None \<longrightarrow> resp_Data (redactedPayload v) = None"
    by (simp add: redactedPayload_no_data)
  have some: "\<forall>d. resp_Data v = Some d \<longrightarrow>
                 (\<exists>d'. resp_Data (redactedPayload v) = Some d'
                    \<and> map fst d' = map fst (filter (\<lambda>kv. snd kv \<noteq> JUndefined) d)
                    \<and> (\<forall>k \<in> dom (map_of d'). map_of d' k = Some REDACTED)
                    \<and> (JUndefined \<notin> snd ` set d \<longrightarrow> map fst d' = map fst d))"
  proof (intro allI impI)
    fix d assume dv: "resp_Data v = Some d"
    let ?m = "JSON_object d"
    let ?d' = "redact_keys (map fst ?m) ?m"
    have 1: "resp_Data (redactedPayload v) = Some ?d'"
      by (simp add: redactedPayload_data[OF dv])
    have 2: "map fst ?d' = map fst ?m" by (rule redact_all_keys(1))
    have 3: "\<forall>k \<in> dom (map_of ?d'). map_of ?d' k = Some REDACTED"
      using redact_all_keys(3)[of _ ?m] by blast
    have 4: "JUndefined \<notin> snd ` set d \<longrightarrow> map fst ?d' = map fst d"
      using 2 JSON_object_defined[of d] by metis
    have 5: "map fst ?d' = map fst (filter (\<lambda>kv. snd kv \<noteq> JUndefined) d)"
      using 2 keys_JSON_object[of d] by metis
    from 1 5 3 4 show "\<exists>d'. resp_Data (redactedPayload v) = Some d'
                    \<and> map fst d' = map fst (filter (\<lambda>kv. snd kv \<noteq> JUndefined) d)
                    \<and> (\<forall>k \<in> dom (map_of d'). map_of d' k = Some REDACTED)
                    \<and> (JUndefined \<notin> snd ` set d \<longrightarrow> map fst d' = map fst d)"
      by blast
  qed
  show ?thesis
  proof (cases "resp_Data r0")
    case None
    with assms p have v: "v = with_Data r0 None"
      by (simp add: read_response_def)
    then have dv: "resp_Data v = None" by (simp add: with_Data_def)
    then have c: "JSON_response v = v" by (cases v) (simp add: JSON_response_def)
    let ?h' = "h @ [ResponseObject (with_Data v None)]"
    have r: "redactDataFromPayload payload h = Some (length h, ?h')"
      by (simp add: redactDataFromPayload_def js c JSON_parse_def dv with_Data_def)
    have same: "read_response ?h' payload = Some v"
      using p None v by (simp add: read_response_def nth_append)
    have new: "read_response ?h' (length h) = Some (redactedPayload v)"
      using dv by (cases v) (simp add: read_response_def with_Data_def redactedPayload_no_data)
    show ?thesis
      using r same new val none some by (intro exI[of _ "length h"] exI[of _ ?h']) simp
  next
    case (Some d0)
    with assms p obtain m where d: "d0 < length h" "h ! d0 = DataObject m"
      and v: "v = with_Data r0 (Some m)"
      by (auto simp: read_response_def split: if_splits object.splits)
    have dv: "resp_Data v = Some m" using v by (simp add: with_Data_def)
    let ?c = "JSON_response v"
    let ?m = "JSON_object m"
    have dc: "resp_Data ?c = Some ?m" using dv by (simp add: JSON_response_def)
    let ?h1 = "h @ [DataObject ?m, ResponseObject (with_Data ?c (Some (length h)))]"
    let ?h' = "?h1[length h := DataObject (redact_keys (map fst ?m) ?m)]"
    have f: "fold (\<lambda>key. assign_key (length h) key REDACTED) (map fst ?m) ?h1 = ?h'"
      unfolding redact_keys_def by (rule fold_assign_key) simp_all
    have r: "redactDataFromPayload payload h = Some (Suc (length h), ?h')"
      unfolding f[symmetric]
      by (simp add: redactDataFromPayload_def js JSON_parse_def dc with_Data_def nth_append)
    have same: "read_response ?h' payload = Some v"
      using p Some d v by (simp add: read_response_def nth_append)
    have new: "read_response ?h' (Suc (length h)) = Some (redactedPayload v)"
      using dv by (cases v)
        (simp add: read_response_def with_Data_def redactedPayload_data JSON_response_def
          nth_append)
    show ?thesis
      using r same new val none some
      by (intro exI[of _ "Suc (length h)"] exI[of _ ?h']) simp
  qed
qed

theorem redactDataFromPayload_copy_witness:
  "read_response store0 1
     = Some \<lparr>resp_Status = SUCCESS, resp_Reason = ''SUCCESS'', resp_StackId = ''s'',
         resp_RequestId = ''r'', resp_PhysicalResourceId = ''db-1'',
         resp_LogicalResourceId = ''L'', resp_NoEcho = Some True,
         resp_Data = Some [(''Password'', JStr ''hunter2''), (''Port'', JNum 5432)]\<rparr>
   \<and> (\<exists>r h'. redactDataFromPayload 1 store0 = Some (r, h')
         \<and> take (length store0) h' = store0
         \<and> read_response h' r
             = Some \<lparr>resp_Status = SUCCESS, resp_Reason = ''SUCCESS'', resp_StackId = ''s'',
                 resp_RequestId = ''r'', resp_PhysicalResourceId = ''db-1'',
                 resp_LogicalResourceId = ''L'', resp_NoEcho = Some True,
                 resp_Data = Some [(''Password'', JStr ''*****''), (''Port'', JStr ''*****'')]\<rparr>)
   \<and> data_keys store0 1 = Some [''Password'', ''Port'']
   \<and> result_keys 1 store0 = Some [''Password'', ''Port'']"
proof -
  let ?v = "\<lparr>resp_Status = SUCCESS, resp_Reason = ''SUCCESS'', resp_StackId = ''s'',
         resp_RequestId = ''r'', resp_PhysicalResourceId = ''db-1'',
         resp_LogicalResourceId = ''L'', resp_NoEcho = Some True,
         resp_Data = Some [(''Password'', JStr ''hunter2''), (''Port'', JNum 5432)]\<rparr>"
  have h: "read_response store0 1 = Some ?v"
    by code_simp
  have e: "redactedPayload ?v = \<lparr>resp_Status = SUCCESS, resp_Reason = ''SUCCESS'', resp_StackId = ''s'',
                 resp_RequestId = ''r'', resp_PhysicalResourceId = ''db-1'',
                 resp_LogicalResourceId = ''L'', resp_NoEcho = Some True,
                 resp_Data = Some [(''Password'', JStr ''*****''), (''Port'', JStr ''*****'')]\<rparr>"
    by code_simp
  have k: "data_keys store0 1 = Some [''Password'', ''Port'']
      \<and> result_keys 1 store0 = Some [''Password'', ''Port'']"
    by code_simp
  from redactDataFromPayload_copy[OF h] obtain r h' where
    "redactDataFromPayload 1 store0 = Some (r, h')" "take (length store0) h' = store0"
    "read_response h' r = Some (redactedPayload ?v)" by blast
  with h e k show ?thesis by auto
qed

text \<open>
  Claim C6 as stated fails for data with an \<open>undefined\<close> value: the JSON copy drops the
  key, so the data \<open>{a: undefined, b: 1}\<close> comes back with the one key \<open>b\<close>.
\<close>

theorem undefined_value_dropped_counterexample:
  "data_keys store1 1 = Some [''a'', ''b'']
   \<and> result_keys 1 store1 = Some [''b'']"
  by code_simp

end
